theory Spec2Isabelle
  imports Main
begin

section \<open>Python values and helpers\<close>

text \<open>
  The value that \<^verbatim>\<open>json.loads\<close> returns. Strings are lists of code points below 256;
  JSON numbers with a fraction or an exponent are not represented. An object is the list
  of the items of the Python dict, in order.
\<close>

datatype json =
    JNull
  | JBool bool
  | JInt int
  | JStr string
  | JList "json list"
  | JObj "(string \<times> json) list"

text \<open>
  The text of an inbound frame is not parsed here: \<^verbatim>\<open>json.loads\<close> is a library call, and
  its outcome on the frame is the input of the handler, either the decoded value or the
  fact that the decoder raised.
\<close>

datatype text_data = Not_json | Json json

datatype py_error =
    JSONDecodeError
  | AttributeError
  | TypeError
  | ValueError
  | OverflowError
  | DoesNotExist
  | MultipleObjectsReturned
  | IntegrityError

text \<open>\<^verbatim>\<open>d.get(key, default)\<close> on a dict.\<close>

definition dict_get :: "(string \<times> json) list \<Rightarrow> string \<Rightarrow> json \<Rightarrow> json" where
  "dict_get d k dflt = (case map_of d k of None \<Rightarrow> dflt | Some v \<Rightarrow> v)"

text \<open>Truth value of a decoded JSON value, as \<^verbatim>\<open>if x:\<close> tests it.\<close>

fun truthy :: "json \<Rightarrow> bool" where
  "truthy JNull = False"
| "truthy (JBool b) = b"
| "truthy (JInt i) = (i \<noteq> 0)"
| "truthy (JStr s) = (s \<noteq> [])"
| "truthy (JList xs) = (xs \<noteq> [])"
| "truthy (JObj kvs) = (kvs \<noteq> [])"

text \<open>The characters \<^verbatim>\<open>str.strip()\<close> removes: Python's whitespace below code point 256.\<close>

definition is_space :: "char \<Rightarrow> bool" where
  "is_space c =
     (let n = (of_char c :: nat)
      in (9 \<le> n \<and> n \<le> 13) \<or> (28 \<le> n \<and> n \<le> 32) \<or> n = 133 \<or> n = 160)"

definition strip :: "string \<Rightarrow> string" where
  "strip s = rev (dropWhile is_space (rev (dropWhile is_space s)))"

text \<open>\<^verbatim>\<open>str(n)\<close> for an integer, used by the f-string of the room name.\<close>

definition digit_char :: "nat \<Rightarrow> char" where
  "digit_char d = ''0123456789'' ! (d mod 10)"

fun str_nat :: "nat \<Rightarrow> string" where
  "str_nat n = (if n < 10 then [digit_char n] else str_nat (n div 10) @ [digit_char (n mod 10)])"

declare str_nat.simps [simp del]

definition str_int :: "int \<Rightarrow> string" where
  "str_int i = (if i < 0 then CHR ''-'' # str_nat (nat (- i)) else str_nat (nat i))"

text \<open>
  \<^verbatim>\<open>int(s)\<close> on a string, in base 10: surrounding whitespace is dropped, one sign is
  allowed, and single underscores may separate digits. Anything else raises ValueError.
  The whitespace \<^verbatim>\<open>int\<close> skips is narrower than that of \<^verbatim>\<open>str.strip()\<close>: the separators
  U+001C to U+001F are not skipped, so a string that holds one raises ValueError.
\<close>

definition is_int_space :: "char \<Rightarrow> bool" where
  "is_int_space c =
     (let n = (of_char c :: nat)
      in (9 \<le> n \<and> n \<le> 13) \<or> n = 32 \<or> n = 133 \<or> n = 160)"

definition int_strip :: "string \<Rightarrow> string" where
  "int_strip s = rev (dropWhile is_int_space (rev (dropWhile is_int_space s)))"

definition is_digit :: "char \<Rightarrow> bool" where
  "is_digit c = (let n = (of_char c :: nat) in 48 \<le> n \<and> n \<le> 57)"

fun digits_ok :: "string \<Rightarrow> bool" where
  "digits_ok [] = False"
| "digits_ok [c] = is_digit c"
| "digits_ok (c # d # cs) =
     (if is_digit c then
        (if d = CHR ''_'' then digits_ok cs else digits_ok (d # cs))
      else False)"

definition digits_val :: "string \<Rightarrow> nat" where
  "digits_val s = foldl (\<lambda>acc c. 10 * acc + ((of_char c :: nat) - 48)) 0 (filter is_digit s)"

definition int_of_str :: "string \<Rightarrow> py_error + int" where
  "int_of_str s =
     (case int_strip s of
        [] \<Rightarrow> Inl ValueError
      | c # cs \<Rightarrow>
          (if c = CHR ''-'' then
             (if digits_ok cs then Inr (- int (digits_val cs)) else Inl ValueError)
           else if c = CHR ''+'' then
             (if digits_ok cs then Inr (int (digits_val cs)) else Inl ValueError)
           else
             (if digits_ok (c # cs) then Inr (int (digits_val (c # cs))) else Inl ValueError)))"

section \<open>The store: models.py\<close>

text \<open>
  One record per model, with the columns the consumers and views read or write. A foreign
  key is the id of the row it points to.
\<close>

record user_row =
  user_id :: int
  username :: string
  is_online :: bool

record conversation_row =
  conv_id :: int
  user1_id :: int
  user2_id :: int
  created_at :: nat

record message_row =
  msg_id :: int
  conversation_id :: int
  sender_id :: int
  content :: string
  timestamp :: nat
  is_read :: bool

text \<open>
  The database: the three tables, and for the two tables the program inserts into, the
  last value of the id sequence.
\<close>

record store =
  user_table :: "user_row list"
  conversation_table :: "conversation_row list"
  message_table :: "message_row list"
  conversation_seq :: int
  message_seq :: int

text \<open>
  \<^verbatim>\<open>scope["user"]\<close> and \<^verbatim>\<open>request.user\<close>: Django's AnonymousUser, whose id is None, or a
  User instance loaded when the connection or request was authenticated.
\<close>

datatype user_obj = AnonymousUser | User int string

fun is_anonymous :: "user_obj \<Rightarrow> bool" where
  "is_anonymous AnonymousUser = True"
| "is_anonymous (User i n) = False"

fun obj_id :: "user_obj \<Rightarrow> int option" where
  "obj_id AnonymousUser = None"
| "obj_id (User i n) = Some i"

fun obj_username :: "user_obj \<Rightarrow> string" where
  "obj_username AnonymousUser = []"
| "obj_username (User i n) = n"

definition obj_of_row :: "user_row \<Rightarrow> user_obj" where
  "obj_of_row u = User (user_id u) (username u)"

section \<open>Channel layer events and the effects of a handler\<close>

text \<open>
  The dicts handed to \<^verbatim>\<open>group_send\<close>, one constructor per value of their "type" key, with
  the remaining keys as arguments in the order the source writes them.
\<close>

datatype event =
    User_presence "int option" string bool
  | User_status "int option" bool
  | Chat_message int string "int option" string string
  | Message_read json
  | Typing "int option"
  | Stop_typing "int option"
  | Deleted json

text \<open>
  What a handler does besides changing the store, in the order it does it: closing or
  accepting the socket, joining or leaving a group, sending to a group, and printing the
  message of a caught exception.
\<close>

datatype effect =
    Close
  | Accept
  | Group_add string string
  | Group_discard string string
  | Group_send string event
  | Print string

section \<open>The ORM calls of the program\<close>

text \<open>\<^verbatim>\<open>User.objects.get(id=pk)\<close>. A lookup with \<^verbatim>\<open>id=None\<close> matches no row.\<close>

definition objects_get_user :: "store \<Rightarrow> int option \<Rightarrow> py_error + user_row" where
  "objects_get_user s pk =
     (case filter (\<lambda>u. Some (user_id u) = pk) (user_table s) of
        [] \<Rightarrow> Inl DoesNotExist
      | [u] \<Rightarrow> Inr u
      | _ \<Rightarrow> Inl MultipleObjectsReturned)"

text \<open>
  \<^verbatim>\<open>Conversation.objects.get_or_create(user1=u1, user2=u2)\<close>: the row with that ordered pair
  when there is one; otherwise a new row, whose two foreign keys must point to rows of
  the user table.
\<close>

definition get_or_create ::
  "nat \<Rightarrow> store \<Rightarrow> user_obj \<Rightarrow> user_obj \<Rightarrow> py_error + (store \<times> conversation_row)" where
  "get_or_create now s u1 u2 =
     (case (obj_id u1, obj_id u2) of
        (Some a, Some b) \<Rightarrow>
          (case filter (\<lambda>c. user1_id c = a \<and> user2_id c = b) (conversation_table s) of
             [c] \<Rightarrow> Inr (s, c)
           | [] \<Rightarrow>
               (if a \<in> user_id ` set (user_table s) \<and> b \<in> user_id ` set (user_table s) then
                  (let c = \<lparr>conv_id = conversation_seq s + 1, user1_id = a, user2_id = b,
                            created_at = now\<rparr>
                   in Inr (s\<lparr>conversation_table := conversation_table s @ [c],
                             conversation_seq := conversation_seq s + 1\<rparr>, c))
                else Inl IntegrityError)
           | _ \<Rightarrow> Inl MultipleObjectsReturned)
      | _ \<Rightarrow> Inl TypeError)"

text \<open>
  \<^verbatim>\<open>Message.objects.create(conversation=c, sender=u, content=text)\<close>: a new row with the
  next id, the time of creation and \<^verbatim>\<open>is_read\<close> at its default.
\<close>

definition objects_create_message ::
  "nat \<Rightarrow> store \<Rightarrow> conversation_row \<Rightarrow> user_obj \<Rightarrow> string \<Rightarrow> py_error + (store \<times> message_row)" where
  "objects_create_message now s c u text =
     (case obj_id u of
        None \<Rightarrow> Inl ValueError
      | Some sid \<Rightarrow>
          (if sid \<in> user_id ` set (user_table s) \<and> conv_id c \<in> conv_id ` set (conversation_table s) then
             (let m = \<lparr>msg_id = message_seq s + 1, conversation_id = conv_id c, sender_id = sid,
                       content = text, timestamp = now, is_read = False\<rparr>
              in Inr (s\<lparr>message_table := message_table s @ [m],
                        message_seq := message_seq s + 1\<rparr>, m))
           else Inl IntegrityError))"

text \<open>
  The conversion of a lookup value to a primary key (\<^verbatim>\<open>int(value)\<close>, with None kept), and
  the values an \<^verbatim>\<open>id__in\<close> lookup iterates over. The keys of an \<^verbatim>\<open>id__in\<close> lookup are
  handed to the database as parameters of the statement. The settings of the project
  are not part of the source; the database is taken to be SQLite, Django's default,
  whose driver raises OverflowError for an integer outside the signed 64-bit range, so
  that the whole statement fails.
\<close>

definition in_int64 :: "int \<Rightarrow> bool" where
  "in_int64 i = (- (2 ^ 63) \<le> i \<and> i < 2 ^ 63)"

fun to_pk :: "json \<Rightarrow> py_error + int option" where
  "to_pk JNull = Inr None"
| "to_pk (JBool b) = Inr (Some (if b then 1 else 0))"
| "to_pk (JInt i) = Inr (Some i)"
| "to_pk (JStr s) = (case int_of_str s of Inl e \<Rightarrow> Inl e | Inr i \<Rightarrow> Inr (Some i))"
| "to_pk (JList xs) = Inl TypeError"
| "to_pk (JObj kvs) = Inl TypeError"

fun py_iter :: "json \<Rightarrow> py_error + json list" where
  "py_iter (JList xs) = Inr xs"
| "py_iter (JStr s) = Inr (map (\<lambda>c. JStr [c]) s)"
| "py_iter (JObj kvs) = Inr (map (\<lambda>kv. JStr (fst kv)) kvs)"
| "py_iter JNull = Inl TypeError"
| "py_iter (JBool b) = Inl TypeError"
| "py_iter (JInt i) = Inl TypeError"

fun prep_pks :: "json list \<Rightarrow> py_error + int list" where
  "prep_pks [] = Inr []"
| "prep_pks (x # xs) =
     (case to_pk x of
        Inl e \<Rightarrow> Inl e
      | Inr p \<Rightarrow>
          (case prep_pks xs of
             Inl e \<Rightarrow> Inl e
           | Inr ps \<Rightarrow> Inr (case p of None \<Rightarrow> ps | Some i \<Rightarrow> i # ps)))"

definition id_in :: "json \<Rightarrow> py_error + int list" where
  "id_in message_ids =
     (case py_iter message_ids of
        Inl e \<Rightarrow> Inl e
      | Inr xs \<Rightarrow>
          (case prep_pks xs of
             Inl e \<Rightarrow> Inl e
           | Inr pks \<Rightarrow> if list_all in_int64 pks then Inr pks else Inl OverflowError))"

section \<open>The consumers: consumers.py\<close>

text \<open>
  A consumer object: the attributes \<^verbatim>\<open>connect\<close> sets. An attribute that has not been set
  yet (\<^verbatim>\<open>hasattr\<close> is false) is None here.
\<close>

record consumer =
  user :: user_obj
  channel_name :: string

record presence_consumer = consumer +
  presence_group :: "string option"

record chat_consumer = consumer +
  other_user_id :: int
  room_group_name :: "string option"

subsection \<open>Database operations\<close>

text \<open>
  \<^verbatim>\<open>update_user_status\<close>, the same in both consumers: any exception is caught and printed.
\<close>

definition update_user_status :: "store \<Rightarrow> user_obj \<Rightarrow> bool \<Rightarrow> store \<times> effect list" where
  "update_user_status s self_user status =
     (case objects_get_user s (obj_id self_user) of
        Inl e \<Rightarrow> (s, [Print ''Status update error:''])
      | Inr u \<Rightarrow>
          (s\<lparr>user_table :=
               map (\<lambda>r. if user_id r = user_id u then r\<lparr>is_online := status\<rparr> else r)
                 (user_table s)\<rparr>, []))"

text \<open>
  \<^verbatim>\<open>sorted([a, b], key=lambda u: u.id)\<close>, unpacked into two names: the sort is stable, and
  comparing None with an integer raises TypeError.
\<close>

definition sorted_by_id :: "user_obj \<Rightarrow> user_obj \<Rightarrow> py_error + (user_obj \<times> user_obj)" where
  "sorted_by_id a b =
     (case (obj_id a, obj_id b) of
        (Some i, Some j) \<Rightarrow> Inr (if j < i then (b, a) else (a, b))
      | _ \<Rightarrow> Inl TypeError)"

text \<open>
  \<^verbatim>\<open>save_message\<close>: the message row, or None after any exception. A conversation row made
  before the exception stays.
\<close>

definition save_message ::
  "nat \<Rightarrow> store \<Rightarrow> chat_consumer \<Rightarrow> string \<Rightarrow> store \<times> message_row option \<times> effect list" where
  "save_message now s self text =
     (case objects_get_user s (Some (other_user_id self)) of
        Inl e \<Rightarrow> (s, None, [Print ''Message save error:''])
      | Inr other_user \<Rightarrow>
          (case sorted_by_id (user self) (obj_of_row other_user) of
             Inl e \<Rightarrow> (s, None, [Print ''Message save error:''])
           | Inr (user1, user2) \<Rightarrow>
               (case get_or_create now s user1 user2 of
                  Inl e \<Rightarrow> (s, None, [Print ''Message save error:''])
                | Inr (s1, conversation) \<Rightarrow>
                    (case objects_create_message now s1 conversation (user self) text of
                       Inl e \<Rightarrow> (s1, None, [Print ''Message save error:''])
                     | Inr (s2, message) \<Rightarrow> (s2, Some message, [])))))"

text \<open>
  \<^verbatim>\<open>mark_messages_read\<close>: one bulk update of the rows whose id is in the list, that are
  unread, and whose sender is not the reader. When the lookup raises, nothing is
  updated and the exception is caught and printed.
\<close>

definition mark_messages_read :: "store \<Rightarrow> json \<Rightarrow> int option \<Rightarrow> store \<times> effect list" where
  "mark_messages_read s message_ids reader_id =
     (case id_in message_ids of
        Inl e \<Rightarrow> (s, [Print ''Mark read error:''])
      | Inr pks \<Rightarrow>
          (s\<lparr>message_table :=
               map (\<lambda>m. if msg_id m \<in> set pks \<and> \<not> is_read m \<and> Some (sender_id m) \<noteq> reader_id
                         then m\<lparr>is_read := True\<rparr> else m)
                 (message_table s)\<rparr>, []))"

text \<open>
  \<^verbatim>\<open>delete_message\<close>: the rows with that id and that sender are deleted. The function has
  no return statement, so the value it returns is None; the second component is that
  value.
\<close>

definition delete_message ::
  "store \<Rightarrow> json \<Rightarrow> int option \<Rightarrow> store \<times> int option \<times> effect list" where
  "delete_message s message_id uid =
     (case to_pk message_id of
        Inl e \<Rightarrow> (s, None, [Print ''Delete message error:''])
      | Inr pk \<Rightarrow>
          (s\<lparr>message_table :=
               filter (\<lambda>m. \<not> (Some (msg_id m) = pk \<and> Some (sender_id m) = uid))
                 (message_table s)\<rparr>, None, []))"

subsection \<open>PresenceConsumer\<close>

definition presence_connect ::
  "store \<Rightarrow> user_obj \<Rightarrow> string \<Rightarrow> store \<times> presence_consumer \<times> effect list" where
  "presence_connect s scope_user chan =
     (let self = \<lparr>user = scope_user, channel_name = chan, presence_group = None\<rparr>
      in if is_anonymous (user self) then (s, self, [Close])
         else
           (let self = self\<lparr>presence_group := Some ''presence''\<rparr>;
                (s', printed) = update_user_status s (user self) True
            in (s', self,
                [Group_add ''presence'' (channel_name self)] @ printed @
                [Group_send ''presence''
                   (User_presence (obj_id (user self)) (obj_username (user self)) True),
                 Accept])))"

definition presence_disconnect :: "store \<Rightarrow> presence_consumer \<Rightarrow> store \<times> effect list" where
  "presence_disconnect s self =
     (case presence_group self of
        None \<Rightarrow> (s, [])
      | Some g \<Rightarrow>
          (let (s', printed) = update_user_status s (user self) False
           in (s', printed @
                 [Group_send g
                    (User_presence (obj_id (user self)) (obj_username (user self)) False),
                  Group_discard g (channel_name self)])))"

subsection \<open>ChatConsumer\<close>

text \<open>
  \<^verbatim>\<open>connect\<close>. AnonymousUser is the one user object whose \<^verbatim>\<open>is_anonymous\<close> is true, and
  the one whose id is None, so the test on \<^verbatim>\<open>is_anonymous\<close> is the case distinction on
  the id. The route argument \<^verbatim>\<open>user_id\<close> is an integer; the room name is built from the
  two ids in ascending order.
\<close>

definition chat_connect ::
  "store \<Rightarrow> user_obj \<Rightarrow> int \<Rightarrow> string \<Rightarrow> store \<times> chat_consumer \<times> effect list" where
  "chat_connect s scope_user route_user_id chan =
     (let self = \<lparr>user = scope_user, channel_name = chan, other_user_id = route_user_id,
                  room_group_name = None\<rparr>
      in case obj_id (user self) of
           None \<Rightarrow> (s, self, [Close])
         | Some uid \<Rightarrow>
             (let user_ids = sort [uid, other_user_id self];
                  room = ''chat_'' @ str_int (user_ids ! 0) @ ''_'' @ str_int (user_ids ! 1);
                  self = self\<lparr>room_group_name := Some room\<rparr>;
                  (s', printed) = update_user_status s (user self) True
              in (s', self,
                  [Group_add room (channel_name self)] @ printed @
                  [Group_send room (User_status (obj_id (user self)) True), Accept])))"

definition chat_disconnect :: "store \<Rightarrow> chat_consumer \<Rightarrow> store \<times> effect list" where
  "chat_disconnect s self =
     (let left = (case room_group_name self of
                    None \<Rightarrow> []
                  | Some g \<Rightarrow> [Group_discard g (channel_name self)]);
          (s', printed) = update_user_status s (user self) False;
          sent = (case room_group_name self of
                    None \<Rightarrow> []
                  | Some g \<Rightarrow> [Group_send g (User_status (obj_id (user self)) False)])
      in (s', left @ printed @ sent))"

text \<open>
  \<^verbatim>\<open>strftime("%H:%M")\<close> of a time given in seconds since the epoch in the time zone of
  the datetime, and
  \<^verbatim>\<open>channel_layer.group_send(self.room_group_name, event)\<close>, which raises AttributeError
  when the attribute was never set.
\<close>

definition two_digits :: "nat \<Rightarrow> string" where
  "two_digits n = [digit_char (n div 10), digit_char (n mod 10)]"

definition strftime_HM :: "nat \<Rightarrow> string" where
  "strftime_HM t = two_digits ((t div 3600) mod 24) @ '':'' @ two_digits ((t div 60) mod 60)"

definition room_send :: "chat_consumer \<Rightarrow> event \<Rightarrow> effect list \<times> py_error option" where
  "room_send self ev =
     (case room_group_name self of
        None \<Rightarrow> ([], Some AttributeError)
      | Some g \<Rightarrow> ([Group_send g ev], None))"

text \<open>
  \<^verbatim>\<open>receive\<close>: the new store, the effects in order, and the exception that leaves the
  handler, if any. Nothing in \<^verbatim>\<open>receive\<close> catches an exception: \<^verbatim>\<open>json.loads\<close> may raise,
  \<^verbatim>\<open>data.get\<close> exists on a dict only, and \<^verbatim>\<open>strip\<close> on a string only.
\<close>

fun receive ::
  "nat \<Rightarrow> store \<Rightarrow> chat_consumer \<Rightarrow> text_data \<Rightarrow> store \<times> effect list \<times> py_error option" where
  "receive now s self Not_json = (s, [], Some JSONDecodeError)"
| "receive now s self (Json (JObj data)) =
     (let msg_type = dict_get data ''type'' (JStr ''message'')
      in if msg_type = JStr ''message'' then
           (case dict_get data ''message'' (JStr []) of
              JStr t \<Rightarrow>
                (let message_text = strip t
                 in if message_text = [] then (s, [], None)
                    else
                      (case save_message now s self message_text of
                         (s', None, printed) \<Rightarrow> (s', printed, None)
                       | (s', Some message, printed) \<Rightarrow>
                           (case room_send self
                                   (Chat_message (msg_id message) (content message)
                                      (obj_id (user self)) (obj_username (user self))
                                      (strftime_HM (timestamp message))) of
                              (sent, err) \<Rightarrow> (s', printed @ sent, err))))
            | _ \<Rightarrow> (s, [], Some AttributeError))
         else if msg_type = JStr ''mark_as_read'' then
           (let message_ids = dict_get data ''message_ids'' (JList [])
            in if truthy message_ids then
                 (case mark_messages_read s message_ids (obj_id (user self)) of
                    (s', printed) \<Rightarrow>
                      (case room_send self (Message_read message_ids) of
                         (sent, err) \<Rightarrow> (s', printed @ sent, err)))
               else (s, [], None))
         else if msg_type = JStr ''typing'' then
           (case room_send self (Typing (obj_id (user self))) of
              (sent, err) \<Rightarrow> (s, sent, err))
         else if msg_type = JStr ''stop_typing'' then
           (case room_send self (Stop_typing (obj_id (user self))) of
              (sent, err) \<Rightarrow> (s, sent, err))
         else if msg_type = JStr ''delete_message'' then
           (let message_id = dict_get data ''message_id'' JNull
            in if truthy message_id then
                 (case delete_message s message_id (obj_id (user self)) of
                    (s', ret, printed) \<Rightarrow>
                      (case room_send self (Deleted message_id) of
                         (sent, err) \<Rightarrow> (s', printed @ sent, err)))
               else (s, [], None))
         else (s, [], None))"
| "receive now s self (Json other) = (s, [], Some AttributeError)"

section \<open>The chat view: views.py\<close>

text \<open>
  \<^verbatim>\<open>min(a, b, key=lambda u: u.id)\<close> and \<^verbatim>\<open>max(a, b, key=lambda u: u.id)\<close>: each returns its
  first argument when the two keys are equal.
\<close>

definition min_by_id :: "user_obj \<Rightarrow> user_obj \<Rightarrow> py_error + user_obj" where
  "min_by_id a b =
     (case (obj_id a, obj_id b) of
        (Some i, Some j) \<Rightarrow> Inr (if j < i then b else a)
      | _ \<Rightarrow> Inl TypeError)"

definition max_by_id :: "user_obj \<Rightarrow> user_obj \<Rightarrow> py_error + user_obj" where
  "max_by_id a b =
     (case (obj_id a, obj_id b) of
        (Some i, Some j) \<Rightarrow> Inr (if i < j then b else a)
      | _ \<Rightarrow> Inl TypeError)"

text \<open>The get-or-create step of \<^verbatim>\<open>chat_view\<close>, on the requesting user and the other user.\<close>

definition chat_view_conversation ::
  "nat \<Rightarrow> store \<Rightarrow> user_obj \<Rightarrow> user_obj \<Rightarrow> py_error + (store \<times> conversation_row)" where
  "chat_view_conversation now s request_user other_user =
     (case min_by_id request_user other_user of
        Inl e \<Rightarrow> Inl e
      | Inr u1 \<Rightarrow>
          (case max_by_id request_user other_user of
             Inl e \<Rightarrow> Inl e
           | Inr u2 \<Rightarrow> get_or_create now s u1 u2))"

datatype response =
    Redirect_login
  | Http404
  | Server_error py_error
  | Render user_row "message_row list"

text \<open>
  \<^verbatim>\<open>chat_view\<close> behind \<^verbatim>\<open>login_required\<close>: an anonymous request is redirected to the login
  page, a missing user is a 404, any other exception leaves the view. The page is rendered
  from the other user and the messages of the conversation in order of timestamp.
\<close>

definition chat_view :: "nat \<Rightarrow> store \<Rightarrow> user_obj \<Rightarrow> int \<Rightarrow> store \<times> response" where
  "chat_view now s request_user uid =
     (if is_anonymous request_user then (s, Redirect_login)
      else
        (case objects_get_user s (Some uid) of
           Inl DoesNotExist \<Rightarrow> (s, Http404)
         | Inl e \<Rightarrow> (s, Server_error e)
         | Inr other_user \<Rightarrow>
             (case chat_view_conversation now s request_user (obj_of_row other_user) of
                Inl e \<Rightarrow> (s, Server_error e)
              | Inr (s', conversation) \<Rightarrow>
                  (s', Render other_user
                         (sort_key timestamp
                            (filter (\<lambda>m. conversation_id m = conv_id conversation)
                               (message_table s')))))))"

section \<open>Lifecycles, reachable stores and examples\<close>

text \<open>A connection that is opened and then torn down: \<^verbatim>\<open>connect\<close> followed by \<^verbatim>\<open>disconnect\<close>.\<close>

definition chat_lifecycle :: "store \<Rightarrow> user_obj \<Rightarrow> int \<Rightarrow> string \<Rightarrow> store \<times> effect list" where
  "chat_lifecycle s scope_user route_user_id chan =
     (case chat_connect s scope_user route_user_id chan of
        (s1, self, done1) \<Rightarrow>
          (case chat_disconnect s1 self of (s2, done2) \<Rightarrow> (s2, done1 @ done2)))"

definition presence_lifecycle :: "store \<Rightarrow> user_obj \<Rightarrow> string \<Rightarrow> store \<times> effect list" where
  "presence_lifecycle s scope_user chan =
     (case presence_connect s scope_user chan of
        (s1, self, done1) \<Rightarrow>
          (case presence_disconnect s1 self of (s2, done2) \<Rightarrow> (s2, done1 @ done2)))"

fun is_group_send :: "effect \<Rightarrow> bool" where
  "is_group_send (Group_send g ev) = True"
| "is_group_send other = False"

fun is_group_discard :: "effect \<Rightarrow> bool" where
  "is_group_discard (Group_discard g c) = True"
| "is_group_discard other = False"

text \<open>
  The stores the program can produce from one without conversations, by any sequence of
  its operations, each with any arguments.
\<close>

inductive reachable :: "store \<Rightarrow> bool" where
  start: "conversation_table s = [] \<Longrightarrow> reachable s"
| viewed: "reachable s \<Longrightarrow> reachable (fst (chat_view now s request_user uid))"
| received: "reachable s \<Longrightarrow> reachable (fst (receive now s self td))"
| chat_connected: "reachable s \<Longrightarrow> reachable (fst (chat_connect s scope_user r chan))"
| chat_disconnected: "reachable s \<Longrightarrow> reachable (fst (chat_disconnect s self))"
| presence_connected: "reachable s \<Longrightarrow> reachable (fst (presence_connect s scope_user chan))"
| presence_disconnected: "reachable s \<Longrightarrow> reachable (fst (presence_disconnect s pself))"

text \<open>
  A store with three users, two conversations and three messages, and consumers of the
  chat endpoint, for the concrete instances below: two in the room of users 1 and 2, one
  whose peer does not exist, one whose peer is the user itself, and one whose connection
  was refused.
\<close>

definition ann :: user_row where
  "ann = \<lparr>user_id = 1, username = ''ann'', is_online = True\<rparr>"

definition bob :: user_row where
  "bob = \<lparr>user_id = 2, username = ''bob'', is_online = True\<rparr>"

definition cat :: user_row where
  "cat = \<lparr>user_id = 3, username = ''cat'', is_online = False\<rparr>"

definition empty_store :: store where
  "empty_store =
     \<lparr>user_table = [ann, bob, cat], conversation_table = [], message_table = [],
      conversation_seq = 0, message_seq = 0\<rparr>"

definition busy_store :: store where
  "busy_store =
     \<lparr>user_table = [ann, bob, cat],
      conversation_table =
        [\<lparr>conv_id = 1, user1_id = 1, user2_id = 2, created_at = 10\<rparr>,
         \<lparr>conv_id = 2, user1_id = 1, user2_id = 3, created_at = 20\<rparr>],
      message_table =
        [\<lparr>msg_id = 1, conversation_id = 1, sender_id = 1, content = ''hi'', timestamp = 30,
          is_read = False\<rparr>,
         \<lparr>msg_id = 2, conversation_id = 1, sender_id = 2, content = ''yo'', timestamp = 40,
          is_read = False\<rparr>,
         \<lparr>msg_id = 3, conversation_id = 2, sender_id = 3, content = ''hey'', timestamp = 50,
          is_read = False\<rparr>],
      conversation_seq = 2, message_seq = 3\<rparr>"

definition bob_chat :: chat_consumer where
  "bob_chat =
     \<lparr>user = User 2 ''bob'', channel_name = ''chan.bob'', other_user_id = 1,
      room_group_name = Some ''chat_1_2''\<rparr>"

definition ann_chat :: chat_consumer where
  "ann_chat =
     \<lparr>user = User 1 ''ann'', channel_name = ''chan.ann'', other_user_id = 2,
      room_group_name = Some ''chat_1_2''\<rparr>"

definition lost_chat :: chat_consumer where
  "lost_chat =
     \<lparr>user = User 2 ''bob'', channel_name = ''chan.bob2'', other_user_id = 7,
      room_group_name = Some ''chat_2_7''\<rparr>"

definition self_chat :: chat_consumer where
  "self_chat =
     \<lparr>user = User 1 ''ann'', channel_name = ''chan.ann1'', other_user_id = 1,
      room_group_name = Some ''chat_1_1''\<rparr>"

definition rejected_chat :: chat_consumer where
  "rejected_chat =
     \<lparr>user = AnonymousUser, channel_name = ''chan.anon'', other_user_id = 2,
      room_group_name = None\<rparr>"

section \<open>Basic facts about the database operations\<close>

lemma objects_get_user_None [simp]: "objects_get_user s None = Inl DoesNotExist"
  by (simp add: objects_get_user_def)

lemma update_user_status_anonymous:
  "update_user_status s AnonymousUser status = (s, [Print ''Status update error:''])"
  by (simp add: update_user_status_def)







lemma mark_messages_read_caught:
  "id_in message_ids = Inl e \<Longrightarrow>
   mark_messages_read s message_ids reader = (s, [Print ''Mark read error:''])"
  by (simp add: mark_messages_read_def)

lemma int_of_str_examples:
  "int_of_str [CHR 0x1F, CHR ''2''] = Inl ValueError"
  "int_of_str [CHR ''2'', CHR 0x1C] = Inl ValueError"
  "int_of_str [CHR 0x85, CHR ''2'', CHR 0xA0] = Inr 2"
  "int_of_str '' -1_2 '' = Inr (- 12)"
  by (simp_all add: int_of_str_def int_strip_def is_int_space_def is_digit_def digits_val_def)

lemma mark_messages_read_overflow_example:
  "mark_messages_read busy_store (JList [JInt 1, JInt 9223372036854775808]) (Some 2) =
     (busy_store, [Print ''Mark read error:''])"
  "mark_messages_read busy_store (JList [JInt 1, JInt 9223372036854775807]) (Some 2) =
     (busy_store\<lparr>message_table :=
        map (\<lambda>m. if msg_id m = 1 then m\<lparr>is_read := True\<rparr> else m) (message_table busy_store)\<rparr>,
      [])"
  by (simp_all add: mark_messages_read_def id_in_def in_int64_def busy_store_def)

lemma delete_message_int:
  "delete_message s (JInt i) uid =
     (s\<lparr>message_table :=
          filter (\<lambda>m. \<not> (msg_id m = i \<and> Some (sender_id m) = uid)) (message_table s)\<rparr>,
      None, [])"
  by (simp add: delete_message_def)


lemma filter_all: "(\<And>x. x \<in> set xs \<Longrightarrow> P x) \<Longrightarrow> filter P xs = xs"
  by (induction xs) simp_all

lemma filter_no_image: "f x \<notin> f ` set ys \<Longrightarrow> filter (\<lambda>y. f y = f x) ys = []"
  by (induction ys) auto

lemma distinct_filter_single:
  "distinct (map f xs) \<Longrightarrow> x \<in> set xs \<Longrightarrow> filter (\<lambda>y. f y = f x) xs = [x]"
proof (induction xs)
  case Nil
  then show ?case by simp
next
  case (Cons y ys)
  show ?case
  proof (cases "y = x")
    case True
    with Cons.prems have "f x \<notin> f ` set ys" by simp
    then have "filter (\<lambda>y. f y = f x) ys = []"
      by (rule filter_no_image)
    with True show ?thesis by simp
  next
    case False
    with Cons.prems have "x \<in> set ys" and "f y \<notin> f ` set ys" by auto
    then have "f y \<noteq> f x" by (metis imageI)
    with Cons \<open>x \<in> set ys\<close> show ?thesis by simp
  qed
qed

lemma distinct_filter_le1:
  "distinct (map f xs) \<Longrightarrow> length (filter (\<lambda>x. f x = i \<and> P x) xs) \<le> 1"
proof (induction xs)
  case Nil
  then show ?case by simp
next
  case (Cons x xs)
  show ?case
  proof (cases "f x = i")
    case True
    with Cons.prems have "i \<notin> f ` set xs" by simp
    then have "filter (\<lambda>x. f x = i \<and> P x) xs = []"
      unfolding filter_empty_conv by blast
    then show ?thesis by simp
  next
    case False
    with Cons show ?thesis by simp
  qed
qed

lemma objects_get_user_found:
  assumes "distinct (map user_id (user_table s))" and "r \<in> set (user_table s)"
  shows "objects_get_user s (Some (user_id r)) = Inr r"
proof -
  have "filter (\<lambda>u. user_id u = user_id r) (user_table s) = [r]"
    using assms by (rule distinct_filter_single)
  then show ?thesis by (simp add: objects_get_user_def)
qed

lemma update_user_status_found:
  assumes "distinct (map user_id (user_table s))" and "r \<in> set (user_table s)"
  shows "update_user_status s (User (user_id r) name) status =
     (s\<lparr>user_table := map (\<lambda>x. if user_id x = user_id r then x\<lparr>is_online := status\<rparr> else x)
          (user_table s)\<rparr>, [])"
  by (simp add: update_user_status_def objects_get_user_found [OF assms])

lemma update_user_status_prints:
  "filter is_group_send (snd (update_user_status s u st)) = [] \<and>
   filter is_group_discard (snd (update_user_status s u st)) = []"
  by (simp add: update_user_status_def split: sum.splits)

lemma get_or_create_messages:
  "get_or_create now s u1 u2 = Inr (s1, c) \<Longrightarrow> message_table s1 = message_table s"
  by (auto simp: get_or_create_def Let_def split: option.splits list.splits if_splits)

lemma objects_create_message_table:
  "objects_create_message now s c u text = Inr (s2, m) \<Longrightarrow>
     message_table s2 = message_table s @ [m]"
  by (auto simp: objects_create_message_def Let_def split: option.splits if_splits)

lemma save_message_cases:
  "save_message now s self text = (s', r, out) \<Longrightarrow>
     (case r of
        None \<Rightarrow> message_table s' = message_table s \<and> out = [Print ''Message save error:'']
      | Some m \<Rightarrow> message_table s' = message_table s @ [m] \<and> out = [])"
  by (auto simp: save_message_def split: sum.splits prod.splits
      dest!: get_or_create_messages objects_create_message_table)

lemma receive_message:
  assumes room: "room_group_name self = Some g"
    and ty: "dict_get data ''type'' (JStr ''message'') = JStr ''message''"
    and msg: "dict_get data ''message'' (JStr []) = JStr t"
  shows "receive now s self (Json (JObj data)) =
     (if strip t = [] then (s, [], None)
      else case save_message now s self (strip t) of
             (s', None, printed) \<Rightarrow> (s', printed, None)
           | (s', Some m, printed) \<Rightarrow>
               (s', printed @ [Group_send g (Chat_message (msg_id m) (content m)
                      (obj_id (user self)) (obj_username (user self))
                      (strftime_HM (timestamp m)))], None))"
  by (simp add: ty msg room room_send_def Let_def split: prod.splits option.splits)

section \<open>Anonymous connections\<close>

text \<open>
  C6. An anonymous connection to the chat endpoint or to the presence endpoint is closed
  at once, and connect followed by disconnect joins no group, sends to no group and
  leaves the store as it was. On the chat endpoint, disconnect still calls
  \<^verbatim>\<open>update_user_status\<close>; the lookup with id None finds no row, so nothing is saved and
  the caught exception is printed.
\<close>

theorem anonymous_lifecycle:
  "chat_lifecycle s AnonymousUser route_user_id chan =
     (s, [Close, Print ''Status update error:'']) \<and>
   presence_lifecycle s AnonymousUser chan = (s, [Close])"
  by (simp add: chat_lifecycle_def chat_connect_def chat_disconnect_def
      presence_lifecycle_def presence_connect_def presence_disconnect_def
      update_user_status_anonymous)

section \<open>Malformed frames\<close>

text \<open>
  C7, as stated: every frame that cannot be parsed or lacks a required field is dropped
  silently, that is, the handler returns normally with the store unchanged and nothing
  sent. For a frame that \<^verbatim>\<open>json.loads\<close> rejects this fails: the exception leaves
  \<^verbatim>\<open>receive\<close>.
\<close>

theorem unparsable_frame_raises:
  "receive 0 busy_store bob_chat Not_json \<noteq> (busy_store, [], None)"
  by simp

text \<open>
  C7, amended. A frame that is not JSON, or whose JSON value is not an object, changes
  nothing in the store and sends nothing, but an exception (JSONDecodeError or
  AttributeError) leaves the handler. A frame that decodes to an object and lacks the
  field its type needs (a message text that is missing or blank, a missing or empty id
  list, a missing message id) is dropped silently: no store change, no effect, no
  exception.
\<close>

theorem malformed_frame_outcome:
  "receive now s self Not_json = (s, [], Some JSONDecodeError) \<and>
   ((\<forall>data. j \<noteq> JObj data) \<longrightarrow> receive now s self (Json j) = (s, [], Some AttributeError)) \<and>
   (dict_get data ''type'' (JStr ''message'') = JStr ''message'' \<and>
      dict_get data ''message'' (JStr []) = JStr t \<and> strip t = []
      \<longrightarrow> receive now s self (Json (JObj data)) = (s, [], None)) \<and>
   (dict_get data ''type'' (JStr ''message'') = JStr ''mark_as_read'' \<and>
      \<not> truthy (dict_get data ''message_ids'' (JList []))
      \<longrightarrow> receive now s self (Json (JObj data)) = (s, [], None)) \<and>
   (dict_get data ''type'' (JStr ''message'') = JStr ''delete_message'' \<and>
      \<not> truthy (dict_get data ''message_id'' JNull)
      \<longrightarrow> receive now s self (Json (JObj data)) = (s, [], None))"
proof -
  have "(\<forall>data. j \<noteq> JObj data) \<Longrightarrow> receive now s self (Json j) = (s, [], Some AttributeError)"
    by (cases j) simp_all
  then show ?thesis by (simp add: Let_def)
qed

theorem malformed_frame_outcome_witness:
  "(\<forall>data. JList [JInt 1] \<noteq> JObj data) \<and>
   receive 5 busy_store bob_chat (Json (JList [JInt 1])) = (busy_store, [], Some AttributeError) \<and>
   dict_get [(''message'', JStr '' '')] ''type'' (JStr ''message'') = JStr ''message'' \<and>
   dict_get [(''message'', JStr '' '')] ''message'' (JStr []) = JStr '' '' \<and>
   strip '' '' = [] \<and>
   receive 5 busy_store bob_chat (Json (JObj [(''message'', JStr '' '')])) = (busy_store, [], None) \<and>
   dict_get [(''type'', JStr ''mark_as_read'')] ''type'' (JStr ''message'') = JStr ''mark_as_read'' \<and>
   \<not> truthy (dict_get [(''type'', JStr ''mark_as_read'')] ''message_ids'' (JList [])) \<and>
   receive 5 busy_store bob_chat (Json (JObj [(''type'', JStr ''mark_as_read'')])) =
     (busy_store, [], None) \<and>
   dict_get [(''type'', JStr ''delete_message'')] ''type'' (JStr ''message'') =
     JStr ''delete_message'' \<and>
   \<not> truthy (dict_get [(''type'', JStr ''delete_message'')] ''message_id'' JNull) \<and>
   receive 5 busy_store bob_chat (Json (JObj [(''type'', JStr ''delete_message'')])) =
     (busy_store, [], None)"
proof -
  have sp: "strip '' '' = []"
    by (simp add: strip_def is_space_def)
  show ?thesis
    using malformed_frame_outcome [where now = 5 and s = busy_store and self = bob_chat
        and j = "JList [JInt 1]" and data = "[(''message'', JStr '' '')]" and t = "'' ''"]
      malformed_frame_outcome [where now = 5 and s = busy_store and self = bob_chat
        and j = "JList [JInt 1]" and data = "[(''type'', JStr ''mark_as_read'')]" and t = "[]"]
      malformed_frame_outcome [where now = 5 and s = busy_store and self = bob_chat
        and j = "JList [JInt 1]" and data = "[(''type'', JStr ''delete_message'')]" and t = "[]"]
    by (simp add: dict_get_def sp)
qed

section \<open>Read receipts\<close>





section \<open>Deleting a message\<close>

text \<open>
  C4. A \<^verbatim>\<open>delete_message\<close> frame that names a message of the table which the requester
  did not send leaves the store as it was, and the deletion notice is sent to the room
  all the same. The notice is the same for any store and any requester, so also when a
  row was deleted. Ids drawn from the sequence are positive; the handler takes the id 0
  for a missing one.
\<close>

theorem delete_by_non_sender:
  assumes room: "room_group_name self = Some g"
    and ty: "map_of data ''type'' = Some (JStr ''delete_message'')"
    and mid: "map_of data ''message_id'' = Some (JInt (msg_id m))"
    and target: "m \<in> set (message_table s)"
    and pos: "0 < msg_id m"
    and pk: "distinct (map msg_id (message_table s))"
    and other: "Some (sender_id m) \<noteq> obj_id (user self)"
  shows "receive now s self (Json (JObj data)) =
           (s, [Group_send g (Deleted (JInt (msg_id m)))], None) \<and>
         snd (receive later other_store (self\<lparr>user := requester\<rparr>) (Json (JObj data))) =
           ([Group_send g (Deleted (JInt (msg_id m)))], None)"
proof -
  have same: "\<And>x. x \<in> set (message_table s) \<Longrightarrow> msg_id x = msg_id m \<Longrightarrow> x = m"
    using pk target by (meson distinct_map inj_onD)
  have keep: "filter (\<lambda>x. msg_id x = msg_id m \<longrightarrow> Some (sender_id x) \<noteq> obj_id (user self))
                (message_table s) = message_table s"
    by (rule filter_all) (use same other in auto)
  show ?thesis
    using pos by (simp add: dict_get_def ty mid room room_send_def delete_message_int keep)
qed

theorem delete_by_non_sender_witness:
  "room_group_name bob_chat = Some ''chat_1_2'' \<and>
   distinct (map msg_id (message_table busy_store)) \<and>
   receive 60 busy_store bob_chat
     (Json (JObj [(''type'', JStr ''delete_message''), (''message_id'', JInt 1)])) =
     (busy_store, [Group_send ''chat_1_2'' (Deleted (JInt 1))], None) \<and>
   snd (receive 70 busy_store (bob_chat\<lparr>user := User 1 ''ann''\<rparr>)
     (Json (JObj [(''type'', JStr ''delete_message''), (''message_id'', JInt 1)]))) =
     ([Group_send ''chat_1_2'' (Deleted (JInt 1))], None) \<and>
   map msg_id (message_table (fst (receive 70 busy_store (bob_chat\<lparr>user := User 1 ''ann''\<rparr>)
     (Json (JObj [(''type'', JStr ''delete_message''), (''message_id'', JInt 1)]))))) = [2, 3]"
  using delete_by_non_sender [where self = bob_chat and g = "''chat_1_2''" and s = busy_store
      and now = 60 and later = 70 and other_store = busy_store and requester = "User 1 ''ann''"
      and data = "[(''type'', JStr ''delete_message''), (''message_id'', JInt 1)]"
      and m = "\<lparr>msg_id = 1, conversation_id = 1, sender_id = 1, content = ''hi'',
                 timestamp = 30, is_read = False\<rparr>"]
  by (simp add: busy_store_def bob_chat_def Let_def room_send_def dict_get_def
      delete_message_def)

text \<open>
  C5, as stated: \<^verbatim>\<open>delete_message\<close> returns the number of rows it deleted. It returns
  None: here one row is deleted, and the value returned is not the count 1.
\<close>

theorem delete_message_no_count:
  "fst (snd (delete_message busy_store (JInt 2) (Some 2))) \<noteq>
     Some (int (length (message_table busy_store)) -
           int (length (message_table (fst (delete_message busy_store (JInt 2) (Some 2))))))"
  by (simp add: delete_message_def busy_store_def)

text \<open>
  C5, amended. With unique message ids, \<^verbatim>\<open>delete_message\<close> removes the row with the given
  id when its sender is the requester, and no row otherwise, so the table shrinks by one
  row or by none; a missing message and a requester who is not the sender both remove
  nothing. The function catches nothing in either case and returns no value.
\<close>

theorem delete_message_effect:
  fixes s i u
  defines "r \<equiv> delete_message s (JInt i) (Some u)"
  assumes pk: "distinct (map msg_id (message_table s))"
  shows "r = (s\<lparr>message_table :=
                  filter (\<lambda>m. msg_id m \<noteq> i \<or> sender_id m \<noteq> u) (message_table s)\<rparr>,
              None, []) \<and>
         length (message_table (fst r)) +
           (if \<exists>m \<in> set (message_table s). msg_id m = i \<and> sender_id m = u then 1 else 0) =
           length (message_table s) \<and>
         set (message_table (fst r)) =
           {m \<in> set (message_table s). \<not> (msg_id m = i \<and> sender_id m = u)}"
proof -
  let ?hit = "\<lambda>m. msg_id m = i \<and> sender_id m = u"
  have r: "r = (s\<lparr>message_table :=
                    filter (\<lambda>m. msg_id m \<noteq> i \<or> sender_id m \<noteq> u) (message_table s)\<rparr>,
              None, [])"
    by (simp add: r_def delete_message_int)
  have tab: "message_table (fst r) = filter (\<lambda>m. \<not> ?hit m) (message_table s)"
    by (simp add: r)
  have split: "length (filter ?hit (message_table s)) +
      length (filter (\<lambda>m. \<not> ?hit m) (message_table s)) = length (message_table s)"
    by (rule sum_length_filter_compl)
  have le1: "length (filter ?hit (message_table s)) \<le> 1"
    using pk by (rule distinct_filter_le1)
  have cnt: "length (filter ?hit (message_table s)) =
      (if \<exists>m \<in> set (message_table s). ?hit m then 1 else 0)"
  proof (cases "\<exists>m \<in> set (message_table s). ?hit m")
    case True
    then have "filter ?hit (message_table s) \<noteq> []"
      by (simp add: filter_empty_conv)
    with le1 have "length (filter ?hit (message_table s)) = 1"
      by (cases "filter ?hit (message_table s)") auto
    with True show ?thesis by simp
  next
    case False
    then have "filter ?hit (message_table s) = []"
      by (simp add: filter_empty_conv)
    with False show ?thesis by simp
  qed
  have "length (message_table (fst r)) +
           (if \<exists>m \<in> set (message_table s). msg_id m = i \<and> sender_id m = u then 1 else 0) =
           length (message_table s)"
    using split cnt tab by simp
  moreover have "set (message_table (fst r)) =
           {m \<in> set (message_table s). \<not> (msg_id m = i \<and> sender_id m = u)}"
    by (simp add: tab)
  ultimately show ?thesis using r by blast
qed

theorem delete_message_effect_witness:
  "distinct (map msg_id (message_table busy_store)) \<and>
   map msg_id (message_table (fst (delete_message busy_store (JInt 2) (Some 2)))) = [1, 3] \<and>
   fst (snd (delete_message busy_store (JInt 2) (Some 2))) = None \<and>
   fst (delete_message busy_store (JInt 1) (Some 2)) = busy_store \<and>
   delete_message busy_store (JInt 99) (Some 2) = (busy_store, None, [])"
  using delete_message_effect [where s = busy_store and i = 2 and u = 2]
    delete_message_effect [where s = busy_store and i = 1 and u = 2]
    delete_message_effect [where s = busy_store and i = 99 and u = 2]
  by (simp add: busy_store_def)

lemma receive_typing:
  assumes "room_group_name self = Some g"
    and "dict_get data ''type'' (JStr ''message'') = JStr ''typing''"
  shows "receive now s self (Json (JObj data)) =
           (s, [Group_send g (Typing (obj_id (user self)))], None)"
  using assms by (simp add: room_send_def)

lemma receive_stop_typing:
  assumes "room_group_name self = Some g"
    and "dict_get data ''type'' (JStr ''message'') = JStr ''stop_typing''"
  shows "receive now s self (Json (JObj data)) =
           (s, [Group_send g (Stop_typing (obj_id (user self)))], None)"
  using assms by (simp add: room_send_def)

lemma receive_mark_as_read:
  assumes "room_group_name self = Some g"
    and "dict_get data ''type'' (JStr ''message'') = JStr ''mark_as_read''"
  shows "receive now s self (Json (JObj data)) =
     (if truthy (dict_get data ''message_ids'' (JList [])) then
        (fst (mark_messages_read s (dict_get data ''message_ids'' (JList [])) (obj_id (user self))),
         snd (mark_messages_read s (dict_get data ''message_ids'' (JList [])) (obj_id (user self))) @
           [Group_send g (Message_read (dict_get data ''message_ids'' (JList [])))], None)
      else (s, [], None))"
  using assms by (simp add: room_send_def Let_def split: prod.splits)

lemma receive_delete_message:
  assumes "room_group_name self = Some g"
    and "dict_get data ''type'' (JStr ''message'') = JStr ''delete_message''"
  shows "receive now s self (Json (JObj data)) =
     (if truthy (dict_get data ''message_id'' JNull) then
        (fst (delete_message s (dict_get data ''message_id'' JNull) (obj_id (user self))),
         snd (snd (delete_message s (dict_get data ''message_id'' JNull) (obj_id (user self)))) @
           [Group_send g (Deleted (dict_get data ''message_id'' JNull))], None)
      else (s, [], None))"
  using assms by (simp add: room_send_def Let_def split: prod.splits)

lemma mark_messages_read_printed:
  "snd (mark_messages_read s message_ids reader) =
   snd (mark_messages_read other_store message_ids reader)"
  by (simp add: mark_messages_read_def split: sum.splits)

lemma delete_message_printed:
  "snd (delete_message s message_id uid) = snd (delete_message other_store message_id uid)"
  by (simp add: delete_message_def split: sum.splits)

section \<open>Which broadcasts wait for the store\<close>

text \<open>
  C3. In a joined session, a frame of type "message" (the default type) with a text does
  this. When the stripped text is empty, nothing happens. Otherwise \<^verbatim>\<open>save_message\<close> is
  called: when it returns a message, the message table has got that one row more and
  the one effect is the send to the room of the chat message with the id and content of
  the row, the id and name of the sender and the time of the row; when it returns None,
  because an exception was caught while saving, the table is as before and the one
  effect is the printed exception. So the room gets a send exactly when the stripped
  text is not empty and the row was created. For the four other types nothing waits for
  the store. \<^verbatim>\<open>typing\<close> and \<^verbatim>\<open>stop_typing\<close> send their event with the user id, whatever the
  store. \<^verbatim>\<open>mark_as_read\<close> with a list that counts as true and \<^verbatim>\<open>delete_message\<close> with an
  id that counts as true send the client's value to the room after the store call, also
  when that call raised and printed its exception; what these four types send is the
  same for any two stores.
\<close>

theorem message_broadcast_gated:
  fixes now s self data
  defines "r \<equiv> receive now s self (Json (JObj data))"
    and "ty \<equiv> dict_get data ''type'' (JStr ''message'')"
    and "mids \<equiv> dict_get data ''message_ids'' (JList [])"
    and "mid \<equiv> dict_get data ''message_id'' JNull"
  assumes room: "room_group_name self = Some g"
  shows
    "(ty = JStr ''message'' \<and> dict_get data ''message'' (JStr []) = JStr t \<longrightarrow>
        (strip t = [] \<longrightarrow> r = (s, [], None)) \<and>
        (strip t \<noteq> [] \<longrightarrow>
           (\<forall>s' m printed. save_message now s self (strip t) = (s', Some m, printed) \<longrightarrow>
              r = (s', [Group_send g
                          (Chat_message (msg_id m) (content m) (obj_id (user self))
                             (obj_username (user self)) (strftime_HM (timestamp m)))], None) \<and>
              message_table s' = message_table s @ [m]) \<and>
           (\<forall>s' printed. save_message now s self (strip t) = (s', None, printed) \<longrightarrow>
              r = (s', [Print ''Message save error:''], None) \<and>
              message_table s' = message_table s)) \<and>
        (filter is_group_send (fst (snd r)) \<noteq> []) =
          (strip t \<noteq> [] \<and> fst (snd (save_message now s self (strip t))) \<noteq> None) \<and>
        (fst (snd (save_message now s self (strip t))) \<noteq> None) =
          (length (message_table (fst (save_message now s self (strip t)))) =
             Suc (length (message_table s)))) \<and>
     (ty = JStr ''typing'' \<longrightarrow> r = (s, [Group_send g (Typing (obj_id (user self)))], None)) \<and>
     (ty = JStr ''stop_typing'' \<longrightarrow>
        r = (s, [Group_send g (Stop_typing (obj_id (user self)))], None)) \<and>
     (ty = JStr ''mark_as_read'' \<and> truthy mids \<longrightarrow>
        r = (fst (mark_messages_read s mids (obj_id (user self))),
             snd (mark_messages_read s mids (obj_id (user self))) @
               [Group_send g (Message_read mids)], None) \<and>
        (\<forall>e. id_in mids = Inl e \<longrightarrow>
           r = (s, [Print ''Mark read error:'', Group_send g (Message_read mids)], None))) \<and>
     (ty = JStr ''delete_message'' \<and> truthy mid \<longrightarrow>
        r = (fst (delete_message s mid (obj_id (user self))),
             snd (snd (delete_message s mid (obj_id (user self)))) @
               [Group_send g (Deleted mid)], None) \<and>
        (\<forall>e. to_pk mid = Inl e \<longrightarrow>
           r = (s, [Print ''Delete message error:'', Group_send g (Deleted mid)], None))) \<and>
     (ty \<in> {JStr ''mark_as_read'', JStr ''typing'', JStr ''stop_typing'', JStr ''delete_message''} \<longrightarrow>
        snd r = snd (receive later other_store self (Json (JObj data))))"
proof -
  obtain s1 res out where sm: "save_message now s self (strip t) = (s1, res, out)"
    by (cases "save_message now s self (strip t)") auto
  note sc = save_message_cases [OF sm]
  have msg: "ty = JStr ''message'' \<Longrightarrow> dict_get data ''message'' (JStr []) = JStr t \<Longrightarrow>
      r = (if strip t = [] then (s, [], None)
           else case save_message now s self (strip t) of
                  (s', None, printed) \<Rightarrow> (s', printed, None)
                | (s', Some m, printed) \<Rightarrow>
                    (s', printed @ [Group_send g (Chat_message (msg_id m) (content m)
                          (obj_id (user self)) (obj_username (user self))
                          (strftime_HM (timestamp m)))], None))"
    unfolding r_def ty_def by (rule receive_message [OF room])
  have a1: "ty = JStr ''message'' \<Longrightarrow> dict_get data ''message'' (JStr []) = JStr t \<Longrightarrow>
      strip t = [] \<Longrightarrow> r = (s, [], None)"
    by (simp add: msg)
  have a2: "ty = JStr ''message'' \<Longrightarrow> dict_get data ''message'' (JStr []) = JStr t \<Longrightarrow>
      strip t \<noteq> [] \<Longrightarrow>
      (\<forall>s' m printed. save_message now s self (strip t) = (s', Some m, printed) \<longrightarrow>
          r = (s', [Group_send g
                      (Chat_message (msg_id m) (content m) (obj_id (user self))
                         (obj_username (user self)) (strftime_HM (timestamp m)))], None) \<and>
          message_table s' = message_table s @ [m])"
    using sc by (cases res) (auto simp: msg sm)
  have a3: "ty = JStr ''message'' \<Longrightarrow> dict_get data ''message'' (JStr []) = JStr t \<Longrightarrow>
      strip t \<noteq> [] \<Longrightarrow>
      (\<forall>s' printed. save_message now s self (strip t) = (s', None, printed) \<longrightarrow>
          r = (s', [Print ''Message save error:''], None) \<and>
          message_table s' = message_table s)"
    using sc by (cases res) (auto simp: msg sm)
  have a4: "ty = JStr ''message'' \<Longrightarrow> dict_get data ''message'' (JStr []) = JStr t \<Longrightarrow>
        (filter is_group_send (fst (snd r)) \<noteq> []) =
          (strip t \<noteq> [] \<and> fst (snd (save_message now s self (strip t))) \<noteq> None)"
    using sc by (cases res) (auto simp: msg sm)
  have a5: "(fst (snd (save_message now s self (strip t))) \<noteq> None) =
          (length (message_table (fst (save_message now s self (strip t)))) =
             Suc (length (message_table s)))"
    using sc by (cases res) (auto simp: sm)
  have b: "ty = JStr ''typing'' \<Longrightarrow> r = (s, [Group_send g (Typing (obj_id (user self)))], None)"
    unfolding r_def ty_def by (rule receive_typing [OF room])
  have c: "ty = JStr ''stop_typing'' \<Longrightarrow>
      r = (s, [Group_send g (Stop_typing (obj_id (user self)))], None)"
    unfolding r_def ty_def by (rule receive_stop_typing [OF room])
  have d1: "ty = JStr ''mark_as_read'' \<Longrightarrow> truthy mids \<Longrightarrow>
        r = (fst (mark_messages_read s mids (obj_id (user self))),
             snd (mark_messages_read s mids (obj_id (user self))) @
               [Group_send g (Message_read mids)], None)"
    unfolding r_def ty_def mids_def by (simp add: receive_mark_as_read [OF room] del: receive.simps)
  have d2: "ty = JStr ''mark_as_read'' \<Longrightarrow> truthy mids \<Longrightarrow>
        (\<forall>e. id_in mids = Inl e \<longrightarrow>
           r = (s, [Print ''Mark read error:'', Group_send g (Message_read mids)], None))"
    by (auto simp: d1 mark_messages_read_caught)
  have e1: "ty = JStr ''delete_message'' \<Longrightarrow> truthy mid \<Longrightarrow>
        r = (fst (delete_message s mid (obj_id (user self))),
             snd (snd (delete_message s mid (obj_id (user self)))) @
               [Group_send g (Deleted mid)], None)"
    unfolding r_def ty_def mid_def by (simp add: receive_delete_message [OF room] del: receive.simps)
  have e2: "ty = JStr ''delete_message'' \<Longrightarrow> truthy mid \<Longrightarrow>
        (\<forall>e. to_pk mid = Inl e \<longrightarrow>
           r = (s, [Print ''Delete message error:'', Group_send g (Deleted mid)], None))"
    by (auto simp: e1 delete_message_def)
  have f: "ty \<in> {JStr ''mark_as_read'', JStr ''typing'', JStr ''stop_typing'', JStr ''delete_message''} \<Longrightarrow>
        snd r = snd (receive later other_store self (Json (JObj data)))"
    unfolding r_def ty_def
    using mark_messages_read_printed [of s "dict_get data ''message_ids'' (JList [])"
        "obj_id (user self)" other_store]
      delete_message_printed [of s "dict_get data ''message_id'' JNull"
        "obj_id (user self)" other_store]
    by (auto simp: receive_typing [OF room] receive_stop_typing [OF room]
        receive_mark_as_read [OF room] receive_delete_message [OF room]
        simp del: receive.simps)
  have A: "ty = JStr ''message'' \<and> dict_get data ''message'' (JStr []) = JStr t \<longrightarrow>
        (strip t = [] \<longrightarrow> r = (s, [], None)) \<and>
        (strip t \<noteq> [] \<longrightarrow>
           (\<forall>s' m printed. save_message now s self (strip t) = (s', Some m, printed) \<longrightarrow>
              r = (s', [Group_send g
                          (Chat_message (msg_id m) (content m) (obj_id (user self))
                             (obj_username (user self)) (strftime_HM (timestamp m)))], None) \<and>
              message_table s' = message_table s @ [m]) \<and>
           (\<forall>s' printed. save_message now s self (strip t) = (s', None, printed) \<longrightarrow>
              r = (s', [Print ''Message save error:''], None) \<and>
              message_table s' = message_table s)) \<and>
        (filter is_group_send (fst (snd r)) \<noteq> []) =
          (strip t \<noteq> [] \<and> fst (snd (save_message now s self (strip t))) \<noteq> None) \<and>
        (fst (snd (save_message now s self (strip t))) \<noteq> None) =
          (length (message_table (fst (save_message now s self (strip t)))) =
             Suc (length (message_table s)))"
  proof (intro impI, elim conjE)
    assume h: "ty = JStr ''message''" "dict_get data ''message'' (JStr []) = JStr t"
    from a1 [OF h] have p1: "strip t = [] \<longrightarrow> r = (s, [], None)" by (rule impI)
    from a2 [OF h] a3 [OF h] have p2: "strip t \<noteq> [] \<longrightarrow>
           (\<forall>s' m printed. save_message now s self (strip t) = (s', Some m, printed) \<longrightarrow>
              r = (s', [Group_send g
                          (Chat_message (msg_id m) (content m) (obj_id (user self))
                             (obj_username (user self)) (strftime_HM (timestamp m)))], None) \<and>
              message_table s' = message_table s @ [m]) \<and>
           (\<forall>s' printed. save_message now s self (strip t) = (s', None, printed) \<longrightarrow>
              r = (s', [Print ''Message save error:''], None) \<and>
              message_table s' = message_table s)"
      by (intro impI conjI) assumption+
    from p1 p2 a4 [OF h] a5 show "(strip t = [] \<longrightarrow> r = (s, [], None)) \<and>
        (strip t \<noteq> [] \<longrightarrow>
           (\<forall>s' m printed. save_message now s self (strip t) = (s', Some m, printed) \<longrightarrow>
              r = (s', [Group_send g
                          (Chat_message (msg_id m) (content m) (obj_id (user self))
                             (obj_username (user self)) (strftime_HM (timestamp m)))], None) \<and>
              message_table s' = message_table s @ [m]) \<and>
           (\<forall>s' printed. save_message now s self (strip t) = (s', None, printed) \<longrightarrow>
              r = (s', [Print ''Message save error:''], None) \<and>
              message_table s' = message_table s)) \<and>
        (filter is_group_send (fst (snd r)) \<noteq> []) =
          (strip t \<noteq> [] \<and> fst (snd (save_message now s self (strip t))) \<noteq> None) \<and>
        (fst (snd (save_message now s self (strip t))) \<noteq> None) =
          (length (message_table (fst (save_message now s self (strip t)))) =
             Suc (length (message_table s)))"
      by (intro conjI)
  qed
  have B: "ty = JStr ''typing'' \<longrightarrow> r = (s, [Group_send g (Typing (obj_id (user self)))], None)"
    using b by (rule impI)
  have C: "ty = JStr ''stop_typing'' \<longrightarrow>
        r = (s, [Group_send g (Stop_typing (obj_id (user self)))], None)"
    using c by (rule impI)
  have D: "ty = JStr ''mark_as_read'' \<and> truthy mids \<longrightarrow>
        r = (fst (mark_messages_read s mids (obj_id (user self))),
             snd (mark_messages_read s mids (obj_id (user self))) @
               [Group_send g (Message_read mids)], None) \<and>
        (\<forall>e. id_in mids = Inl e \<longrightarrow>
           r = (s, [Print ''Mark read error:'', Group_send g (Message_read mids)], None))"
    using d1 d2 by (intro impI conjI; elim conjE) assumption+
  have E: "ty = JStr ''delete_message'' \<and> truthy mid \<longrightarrow>
        r = (fst (delete_message s mid (obj_id (user self))),
             snd (snd (delete_message s mid (obj_id (user self)))) @
               [Group_send g (Deleted mid)], None) \<and>
        (\<forall>e. to_pk mid = Inl e \<longrightarrow>
           r = (s, [Print ''Delete message error:'', Group_send g (Deleted mid)], None))"
    using e1 e2 by (intro impI conjI; elim conjE) assumption+
  have F: "ty \<in> {JStr ''mark_as_read'', JStr ''typing'', JStr ''stop_typing'', JStr ''delete_message''} \<longrightarrow>
        snd r = snd (receive later other_store self (Json (JObj data)))"
    using f by (rule impI)
  show ?thesis
    by (rule conjI [OF A conjI [OF B conjI [OF C conjI [OF D conjI [OF E F]]]]])
qed

theorem message_broadcast_gated_witness:
  "room_group_name bob_chat = Some ''chat_1_2'' \<and>
   dict_get [(''message'', JStr '' hi '')] ''type'' (JStr ''message'') = JStr ''message'' \<and>
   dict_get [(''message'', JStr '' hi '')] ''message'' (JStr []) = JStr '' hi '' \<and>
   strip '' hi '' = ''hi'' \<and>
   snd (receive 3725 busy_store bob_chat (Json (JObj [(''message'', JStr '' hi '')]))) =
     ([Group_send ''chat_1_2'' (Chat_message 4 ''hi'' (Some 2) ''bob'' ''01:02'')], None) \<and>
   map msg_id
     (message_table (fst (receive 3725 busy_store bob_chat
        (Json (JObj [(''message'', JStr '' hi '')]))))) = [1, 2, 3, 4] \<and>
   receive 3725 busy_store lost_chat (Json (JObj [(''message'', JStr '' hi '')])) =
     (busy_store, [Print ''Message save error:''], None) \<and>
   receive 1 busy_store bob_chat (Json (JObj [(''type'', JStr ''typing'')])) =
     (busy_store, [Group_send ''chat_1_2'' (Typing (Some 2))], None) \<and>
   receive 1 busy_store bob_chat
     (Json (JObj [(''type'', JStr ''mark_as_read''), (''message_ids'', JInt 5)])) =
     (busy_store, [Print ''Mark read error:'', Group_send ''chat_1_2'' (Message_read (JInt 5))],
      None) \<and>
   receive 1 busy_store bob_chat
     (Json (JObj [(''type'', JStr ''delete_message''), (''message_id'', JList [JInt 1])])) =
     (busy_store,
      [Print ''Delete message error:'', Group_send ''chat_1_2'' (Deleted (JList [JInt 1]))],
      None)"
proof -
  let ?m = "\<lparr>msg_id = 4, conversation_id = 1, sender_id = 2, content = ''hi'',
             timestamp = 3725, is_read = False\<rparr>"
  let ?s = "busy_store\<lparr>message_table := message_table busy_store @ [?m], message_seq := 4\<rparr>"
  have room: "room_group_name bob_chat = Some ''chat_1_2''"
    and room2: "room_group_name lost_chat = Some ''chat_2_7''"
    and who: "obj_id (user bob_chat) = Some 2" "obj_username (user bob_chat) = ''bob''"
    by (simp_all add: bob_chat_def lost_chat_def)
  have sp: "strip '' hi '' = ''hi''"
    by (simp add: strip_def is_space_def)
  have tm: "strftime_HM 3725 = ''01:02''"
    by (simp add: strftime_HM_def two_digits_def digit_char_def)
  have saved: "save_message 3725 busy_store bob_chat ''hi'' = (?s, Some ?m, [])"
    by (simp add: save_message_def objects_get_user_def sorted_by_id_def obj_of_row_def
        get_or_create_def objects_create_message_def Let_def busy_store_def ann_def bob_def
        cat_def bob_chat_def)
  have lost: "save_message 3725 busy_store lost_chat ''hi'' =
      (busy_store, None, [Print ''Message save error:''])"
    by (simp add: save_message_def objects_get_user_def busy_store_def ann_def bob_def
        cat_def lost_chat_def)
  have noiter: "id_in (JInt 5) = Inl TypeError"
    by (simp add: id_in_def)
  have nopk: "to_pk (JList [JInt 1]) = Inl TypeError"
    by simp
  have tab: "map msg_id (message_table ?s) = [1, 2, 3, 4]"
    by (simp add: busy_store_def)
  from message_broadcast_gated [OF room, where data = "[(''message'', JStr '' hi '')]"
      and t = "'' hi ''" and now = 3725 and s = busy_store] sp saved
  have c1: "receive 3725 busy_store bob_chat (Json (JObj [(''message'', JStr '' hi '')])) =
      (?s, [Group_send ''chat_1_2'' (Chat_message 4 ''hi'' (Some 2) ''bob'' ''01:02'')], None)"
    by (simp add: dict_get_def who tm del: receive.simps)
  from message_broadcast_gated [OF room2, where data = "[(''message'', JStr '' hi '')]"
      and t = "'' hi ''" and now = 3725 and s = busy_store] sp lost
  have c2: "receive 3725 busy_store lost_chat (Json (JObj [(''message'', JStr '' hi '')])) =
      (busy_store, [Print ''Message save error:''], None)"
    by (simp add: dict_get_def del: receive.simps)
  from message_broadcast_gated [OF room, where data = "[(''type'', JStr ''typing'')]"
      and now = 1 and s = busy_store]
  have c3: "receive 1 busy_store bob_chat (Json (JObj [(''type'', JStr ''typing'')])) =
      (busy_store, [Group_send ''chat_1_2'' (Typing (Some 2))], None)"
    by (simp add: dict_get_def who del: receive.simps)
  from message_broadcast_gated [OF room,
      where data = "[(''type'', JStr ''mark_as_read''), (''message_ids'', JInt 5)]"
      and now = 1 and s = busy_store] noiter
  have c4: "receive 1 busy_store bob_chat
      (Json (JObj [(''type'', JStr ''mark_as_read''), (''message_ids'', JInt 5)])) =
      (busy_store, [Print ''Mark read error:'', Group_send ''chat_1_2'' (Message_read (JInt 5))],
       None)"
    by (simp add: dict_get_def mark_messages_read_caught [OF noiter] del: receive.simps)
  from message_broadcast_gated [OF room,
      where data = "[(''type'', JStr ''delete_message''), (''message_id'', JList [JInt 1])]"
      and now = 1 and s = busy_store] nopk
  have c5: "receive 1 busy_store bob_chat
      (Json (JObj [(''type'', JStr ''delete_message''), (''message_id'', JList [JInt 1])])) =
      (busy_store,
       [Print ''Delete message error:'', Group_send ''chat_1_2'' (Deleted (JList [JInt 1]))],
       None)"
    by (simp add: dict_get_def delete_message_def del: receive.simps)
  show ?thesis
    using room sp tab c1 c2 c3 c4 c5 by (simp add: dict_get_def del: receive.simps)
qed

section \<open>Disconnecting from a chat\<close>

text \<open>
  C9, as stated: the offline notice is sent to the room even when the join was skipped
  during connect. The connection of an anonymous user is refused before the room name is
  set; on its disconnect nothing is sent, and the only effect is the printed exception
  of the failed status update.
\<close>

theorem rejected_disconnect_sends_nothing:
  "chat_connect busy_store AnonymousUser 2 ''chan.anon'' = (busy_store, rejected_chat, [Close]) \<and>
   chat_disconnect busy_store rejected_chat = (busy_store, [Print ''Status update error:''])"
  by (simp add: chat_connect_def chat_disconnect_def rejected_chat_def update_user_status_def)

text \<open>
  C9, amended. On disconnect, a session whose room name was set leaves the room, calls
  \<^verbatim>\<open>update_user_status\<close> with False and then sends the offline notice with its user id to
  the room, in this order; a session whose room name was never set sends nothing and
  leaves no group, and only calls \<^verbatim>\<open>update_user_status\<close>. When the user has a row in
  the user table, that row is offline afterwards and nothing is printed.
\<close>

theorem chat_disconnect_effects:
  "(room_group_name self = Some g \<longrightarrow>
      snd (chat_disconnect s self) =
        [Group_discard g (channel_name self)] @ snd (update_user_status s (user self) False) @
        [Group_send g (User_status (obj_id (user self)) False)]) \<and>
   (room_group_name self = None \<longrightarrow>
      filter is_group_send (snd (chat_disconnect s self)) = [] \<and>
      filter is_group_discard (snd (chat_disconnect s self)) = []) \<and>
   (user self = User (user_id r) name \<and> distinct (map user_id (user_table s)) \<and>
      r \<in> set (user_table s) \<longrightarrow>
      fst (chat_disconnect s self) =
        s\<lparr>user_table := map (\<lambda>x. if user_id x = user_id r then x\<lparr>is_online := False\<rparr> else x)
             (user_table s)\<rparr> \<and>
      snd (update_user_status s (user self) False) = [])"
proof -
  have a: "room_group_name self = Some g \<Longrightarrow>
      snd (chat_disconnect s self) =
        [Group_discard g (channel_name self)] @ snd (update_user_status s (user self) False) @
        [Group_send g (User_status (obj_id (user self)) False)]"
    by (simp add: chat_disconnect_def split: prod.splits)
  have b: "room_group_name self = None \<Longrightarrow>
      filter is_group_send (snd (chat_disconnect s self)) = [] \<and>
      filter is_group_discard (snd (chat_disconnect s self)) = []"
    using update_user_status_prints [of s "user self" False]
    by (simp add: chat_disconnect_def split: prod.splits)
  have c: "user self = User (user_id r) name \<Longrightarrow> distinct (map user_id (user_table s)) \<Longrightarrow>
      r \<in> set (user_table s) \<Longrightarrow>
      fst (chat_disconnect s self) =
        s\<lparr>user_table := map (\<lambda>x. if user_id x = user_id r then x\<lparr>is_online := False\<rparr> else x)
             (user_table s)\<rparr> \<and>
      snd (update_user_status s (user self) False) = []"
    by (simp add: chat_disconnect_def update_user_status_found split: prod.splits)
  from a b c show ?thesis by blast
qed

theorem chat_disconnect_effects_witness:
  "room_group_name bob_chat = Some ''chat_1_2'' \<and>
   user bob_chat = User (user_id bob) ''bob'' \<and>
   distinct (map user_id (user_table busy_store)) \<and>
   snd (chat_disconnect busy_store bob_chat) =
     [Group_discard ''chat_1_2'' ''chan.bob'', Group_send ''chat_1_2'' (User_status (Some 2) False)] \<and>
   map is_online (user_table (fst (chat_disconnect busy_store bob_chat))) = [True, False, False] \<and>
   room_group_name rejected_chat = None \<and>
   filter is_group_send (snd (chat_disconnect busy_store rejected_chat)) = [] \<and>
   filter is_group_discard (snd (chat_disconnect busy_store rejected_chat)) = []"
  using chat_disconnect_effects [where self = bob_chat and g = "''chat_1_2''" and s = busy_store
      and r = bob and name = "''bob''"]
    chat_disconnect_effects [where self = rejected_chat and g = "''chat_1_2''" and s = busy_store
      and r = bob and name = "''bob''"]
  by (simp add: busy_store_def bob_chat_def rejected_chat_def ann_def bob_def cat_def)

section \<open>Facts about get-or-create\<close>

text \<open>
  The database keeps primary keys unique and enforces \<^verbatim>\<open>unique_together\<close> on the
  conversation table; the lemmas below take these constraints as hypotheses.
\<close>

lemma filter_none: "(\<And>x. x \<in> set xs \<Longrightarrow> \<not> P x) \<Longrightarrow> filter P xs = []"
  by (induction xs) simp_all

lemma get_or_create_existing:
  assumes pairs: "distinct (map (\<lambda>c. (user1_id c, user2_id c)) (conversation_table s))"
    and c: "c \<in> set (conversation_table s)"
  shows "get_or_create now s (User (user1_id c) n1) (User (user2_id c) n2) = Inr (s, c)"
proof -
  have "filter (\<lambda>y. (user1_id y, user2_id y) = (user1_id c, user2_id c)) (conversation_table s) = [c]"
    using pairs c by (rule distinct_filter_single)
  then have "filter (\<lambda>y. user1_id y = user1_id c \<and> user2_id y = user2_id c) (conversation_table s) = [c]"
    by simp
  then show ?thesis by (simp add: get_or_create_def)
qed

lemma get_or_create_new:
  assumes none: "\<And>x. x \<in> set (conversation_table s) \<Longrightarrow> \<not> (user1_id x = a \<and> user2_id x = b)"
    and a: "a \<in> user_id ` set (user_table s)"
    and b: "b \<in> user_id ` set (user_table s)"
  shows "get_or_create now s (User a n1) (User b n2) =
     Inr (s\<lparr>conversation_table := conversation_table s @
               [\<lparr>conv_id = conversation_seq s + 1, user1_id = a, user2_id = b, created_at = now\<rparr>],
             conversation_seq := conversation_seq s + 1\<rparr>,
          \<lparr>conv_id = conversation_seq s + 1, user1_id = a, user2_id = b, created_at = now\<rparr>)"
proof -
  have "filter (\<lambda>y. user1_id y = a \<and> user2_id y = b) (conversation_table s) = []"
    by (rule filter_none) (use none in blast)
  then show ?thesis using a b by (simp add: get_or_create_def Let_def)
qed

lemma get_or_create_total:
  assumes pairs: "distinct (map (\<lambda>c. (user1_id c, user2_id c)) (conversation_table s))"
    and a: "a \<in> user_id ` set (user_table s)"
    and b: "b \<in> user_id ` set (user_table s)"
  shows "\<exists>s' c. get_or_create now s (User a n1) (User b n2) = Inr (s', c) \<and>
           c \<in> set (conversation_table s') \<and> user1_id c = a \<and> user2_id c = b \<and>
           distinct (map (\<lambda>c. (user1_id c, user2_id c)) (conversation_table s')) \<and>
           user_table s' = user_table s \<and> message_table s' = message_table s"
proof (cases "\<exists>x \<in> set (conversation_table s). user1_id x = a \<and> user2_id x = b")
  case True
  then obtain c where c: "c \<in> set (conversation_table s)" "user1_id c = a" "user2_id c = b"
    by blast
  from get_or_create_existing [OF pairs c(1), of now n1 n2] c pairs
  show ?thesis by auto
next
  case False
  let ?c = "\<lparr>conv_id = conversation_seq s + 1, user1_id = a, user2_id = b, created_at = now\<rparr>"
  from False have none:
    "\<And>x. x \<in> set (conversation_table s) \<Longrightarrow> \<not> (user1_id x = a \<and> user2_id x = b)"
    by blast
  have fresh: "(a, b) \<notin> (\<lambda>c. (user1_id c, user2_id c)) ` set (conversation_table s)"
    using False by auto
  show ?thesis
    using get_or_create_new [OF none a b, of now n1 n2] pairs fresh by simp
qed

lemma objects_create_message_ok:
  assumes "u \<in> user_id ` set (user_table s)" and "c \<in> set (conversation_table s)"
  shows "objects_create_message now s c (User u n) text =
     Inr (s\<lparr>message_table := message_table s @
               [\<lparr>msg_id = message_seq s + 1, conversation_id = conv_id c, sender_id = u,
                 content = text, timestamp = now, is_read = False\<rparr>],
             message_seq := message_seq s + 1\<rparr>,
          \<lparr>msg_id = message_seq s + 1, conversation_id = conv_id c, sender_id = u,
            content = text, timestamp = now, is_read = False\<rparr>)"
  using assms by (simp add: objects_create_message_def Let_def)

lemma sorted_by_id_users:
  "a \<noteq> b \<Longrightarrow> \<exists>n1 n2. sorted_by_id (User a na) (User b nb) = Inr (User (min a b) n1, User (max a b) n2)"
  by (simp add: sorted_by_id_def min_def max_def)

lemma chat_view_conversation_users:
  "a \<noteq> b \<Longrightarrow> \<exists>n1 n2. chat_view_conversation now s (User a na) (User b nb) =
     get_or_create now s (User (min a b) n1) (User (max a b) n2)"
  by (auto simp: chat_view_conversation_def min_by_id_def max_by_id_def min_def max_def)

lemma view_gets_row:
  assumes pairs: "distinct (map (\<lambda>c. (user1_id c, user2_id c)) (conversation_table s))"
    and c: "c \<in> set (conversation_table s)"
    and ab: "a \<noteq> b" and c1: "user1_id c = min a b" and c2: "user2_id c = max a b"
  shows "chat_view_conversation now s (User a na) (User b nb) = Inr (s, c)"
proof -
  from chat_view_conversation_users [OF ab] obtain n1 n2 where
    "chat_view_conversation now s (User a na) (User b nb) =
       get_or_create now s (User (min a b) n1) (User (max a b) n2)"
    by blast
  with get_or_create_existing [OF pairs c, of now n1 n2] c1 c2 show ?thesis by simp
qed

lemma save_gets_row:
  assumes users: "distinct (map user_id (user_table s))"
    and pairs: "distinct (map (\<lambda>c. (user1_id c, user2_id c)) (conversation_table s))"
    and ra: "ra \<in> set (user_table s)" and rb: "rb \<in> set (user_table s)"
    and ab: "user_id ra \<noteq> user_id rb"
    and c: "c \<in> set (conversation_table s)"
    and c1: "user1_id c = min (user_id ra) (user_id rb)"
    and c2: "user2_id c = max (user_id ra) (user_id rb)"
    and me: "user self = User (user_id ra) na" and peer: "other_user_id self = user_id rb"
  shows "\<exists>m s'. save_message now s self text = (s', Some m, []) \<and>
           conversation_id m = conv_id c \<and> sender_id m = user_id ra \<and>
           conversation_table s' = conversation_table s \<and> user_table s' = user_table s"
proof -
  have got: "objects_get_user s (Some (other_user_id self)) = Inr rb"
    unfolding peer using users rb by (rule objects_get_user_found)
  from sorted_by_id_users [OF ab] obtain n1 n2 where
    srt: "sorted_by_id (User (user_id ra) na) (User (user_id rb) (username rb)) =
            Inr (User (min (user_id ra) (user_id rb)) n1, User (max (user_id ra) (user_id rb)) n2)"
    by blast
  have goc: "get_or_create now s (User (min (user_id ra) (user_id rb)) n1)
               (User (max (user_id ra) (user_id rb)) n2) = Inr (s, c)"
    using get_or_create_existing [OF pairs c, of now n1 n2] c1 c2 by simp
  have sender: "user_id ra \<in> user_id ` set (user_table s)"
    using ra by blast
  show ?thesis
    by (simp add: save_message_def got me obj_of_row_def srt goc
        objects_create_message_ok [OF sender c])
qed

lemma view_first:
  assumes pairs: "distinct (map (\<lambda>c. (user1_id c, user2_id c)) (conversation_table s))"
    and ra: "ra \<in> set (user_table s)" and rb: "rb \<in> set (user_table s)"
    and ab: "user_id ra \<noteq> user_id rb"
  shows "\<exists>s' c. chat_view_conversation now s (User (user_id ra) na) (obj_of_row rb) = Inr (s', c) \<and>
           c \<in> set (conversation_table s') \<and>
           user1_id c = min (user_id ra) (user_id rb) \<and>
           user2_id c = max (user_id ra) (user_id rb) \<and>
           distinct (map (\<lambda>c. (user1_id c, user2_id c)) (conversation_table s')) \<and>
           user_table s' = user_table s"
proof -
  from chat_view_conversation_users [OF ab] obtain n1 n2 where
    v: "chat_view_conversation now s (User (user_id ra) na) (obj_of_row rb) =
       get_or_create now s (User (min (user_id ra) (user_id rb)) n1)
         (User (max (user_id ra) (user_id rb)) n2)"
    unfolding obj_of_row_def by blast
  have lo: "min (user_id ra) (user_id rb) \<in> user_id ` set (user_table s)"
    using ra rb by (simp add: min_def)
  have hi: "max (user_id ra) (user_id rb) \<in> user_id ` set (user_table s)"
    using ra rb by (simp add: max_def)
  from get_or_create_total [OF pairs lo hi, of now n1 n2] v show ?thesis
    by auto
qed

lemma save_first:
  assumes users: "distinct (map user_id (user_table s))"
    and pairs: "distinct (map (\<lambda>c. (user1_id c, user2_id c)) (conversation_table s))"
    and ra: "ra \<in> set (user_table s)" and rb: "rb \<in> set (user_table s)"
    and ab: "user_id ra \<noteq> user_id rb"
    and me: "user self = User (user_id ra) na" and peer: "other_user_id self = user_id rb"
  shows "\<exists>m s' c. save_message now s self text = (s', Some m, []) \<and>
           c \<in> set (conversation_table s') \<and> conversation_id m = conv_id c \<and>
           user1_id c = min (user_id ra) (user_id rb) \<and>
           user2_id c = max (user_id ra) (user_id rb) \<and>
           distinct (map (\<lambda>c. (user1_id c, user2_id c)) (conversation_table s')) \<and>
           user_table s' = user_table s"
proof -
  have got: "objects_get_user s (Some (other_user_id self)) = Inr rb"
    unfolding peer using users rb by (rule objects_get_user_found)
  from sorted_by_id_users [OF ab] obtain n1 n2 where
    srt: "sorted_by_id (User (user_id ra) na) (User (user_id rb) (username rb)) =
            Inr (User (min (user_id ra) (user_id rb)) n1, User (max (user_id ra) (user_id rb)) n2)"
    by blast
  have lo: "min (user_id ra) (user_id rb) \<in> user_id ` set (user_table s)"
    using ra rb by (simp add: min_def)
  have hi: "max (user_id ra) (user_id rb) \<in> user_id ` set (user_table s)"
    using ra rb by (simp add: max_def)
  from get_or_create_total [OF pairs lo hi, of now n1 n2] obtain s1 c where
    goc: "get_or_create now s (User (min (user_id ra) (user_id rb)) n1)
            (User (max (user_id ra) (user_id rb)) n2) = Inr (s1, c)"
    and c: "c \<in> set (conversation_table s1)"
      "user1_id c = min (user_id ra) (user_id rb)" "user2_id c = max (user_id ra) (user_id rb)"
    and pairs1: "distinct (map (\<lambda>c. (user1_id c, user2_id c)) (conversation_table s1))"
    and users1: "user_table s1 = user_table s"
    by blast
  have sender: "user_id ra \<in> user_id ` set (user_table s1)"
    using ra users1 by simp
  have "save_message now s self text =
      (s1\<lparr>message_table := message_table s1 @
            [\<lparr>msg_id = message_seq s1 + 1, conversation_id = conv_id c, sender_id = user_id ra,
              content = text, timestamp = now, is_read = False\<rparr>],
          message_seq := message_seq s1 + 1\<rparr>,
       Some \<lparr>msg_id = message_seq s1 + 1, conversation_id = conv_id c, sender_id = user_id ra,
              content = text, timestamp = now, is_read = False\<rparr>, [])"
    by (simp add: save_message_def got me obj_of_row_def srt goc
        objects_create_message_ok [OF sender c(1)])
  with c pairs1 users1 show ?thesis by auto
qed

lemma chat_view_found:
  assumes users: "distinct (map user_id (user_table s))"
    and r: "r \<in> set (user_table s)"
    and conv: "chat_view_conversation now s (User a n) (obj_of_row r) = Inr (s', c)"
  shows "chat_view now s (User a n) (user_id r) =
     (s', Render r (sort_key timestamp
                      (filter (\<lambda>m. conversation_id m = conv_id c) (message_table s'))))"
  by (simp add: chat_view_def objects_get_user_found [OF users r] conv)

lemma pair_filter_single:
  assumes pairs: "distinct (map (\<lambda>c. (user1_id c, user2_id c)) (conversation_table s))"
    and c: "c \<in> set (conversation_table s)"
  shows "filter (\<lambda>x. user1_id x = user1_id c \<and> user2_id x = user2_id c) (conversation_table s) = [c]"
proof -
  have "filter (\<lambda>y. (user1_id y, user2_id y) = (user1_id c, user2_id c)) (conversation_table s) = [c]"
    using pairs c by (rule distinct_filter_single)
  then show ?thesis by simp
qed

section \<open>One conversation per pair of users\<close>

text \<open>
  C1. Let the ids in the user table be unique and the pairs in the conversation table be
  unique, and let two users with different ids both have a row. When the first user
  opens the chat view with the id of the second, \<^verbatim>\<open>chat_view\<close> gets or creates a
  conversation row; afterwards it is the one row of the table whose pair is the smaller
  id followed by the larger one, and the page shows the messages of that row. When the
  second user then opens the chat view with the id of the first, the store stays as it
  is and the page shows the messages of the same row; and a message saved by either
  user for the other is stored under that row, with the conversation table unchanged.
  The same holds when the first call is a message saved by the first user for the
  second: the chat view opened by either user afterwards creates nothing and shows the
  row the message was stored under, and so does a message saved in the other direction.
\<close>

theorem conversation_same_both_ways:
  assumes users: "distinct (map user_id (user_table s))"
    and pairs: "distinct (map (\<lambda>c. (user1_id c, user2_id c)) (conversation_table s))"
    and ra: "ra \<in> set (user_table s)" and rb: "rb \<in> set (user_table s)"
    and ab: "user_id ra \<noteq> user_id rb"
    and sa: "user self_a = User (user_id ra) na" "other_user_id self_a = user_id rb"
    and sb: "user self_b = User (user_id rb) nb" "other_user_id self_b = user_id ra"
  shows "(\<exists>s1 c.
            chat_view t1 s (User (user_id ra) na) (user_id rb) =
              (s1, Render rb (sort_key timestamp
                    (filter (\<lambda>m. conversation_id m = conv_id c) (message_table s1)))) \<and>
            chat_view_conversation t1 s (User (user_id ra) na) (obj_of_row rb) = Inr (s1, c) \<and>
            filter (\<lambda>x. user1_id x = min (user_id ra) (user_id rb) \<and>
                        user2_id x = max (user_id ra) (user_id rb)) (conversation_table s1) = [c] \<and>
            chat_view t2 s1 (User (user_id rb) nb) (user_id ra) =
              (s1, Render ra (sort_key timestamp
                    (filter (\<lambda>m. conversation_id m = conv_id c) (message_table s1)))) \<and>
            chat_view_conversation t2 s1 (User (user_id rb) nb) (obj_of_row ra) = Inr (s1, c) \<and>
            user1_id c = min (user_id ra) (user_id rb) \<and>
            user2_id c = max (user_id ra) (user_id rb) \<and>
            (\<exists>m s2. save_message t3 s1 self_a x = (s2, Some m, []) \<and>
                     conversation_id m = conv_id c \<and>
                     conversation_table s2 = conversation_table s1) \<and>
            (\<exists>m s2. save_message t4 s1 self_b y = (s2, Some m, []) \<and>
                     conversation_id m = conv_id c \<and>
                     conversation_table s2 = conversation_table s1)) \<and>
         (\<exists>s1 m c.
            save_message t1 s self_a x = (s1, Some m, []) \<and>
            filter (\<lambda>x. user1_id x = min (user_id ra) (user_id rb) \<and>
                        user2_id x = max (user_id ra) (user_id rb)) (conversation_table s1) = [c] \<and>
            conversation_id m = conv_id c \<and>
            user1_id c = min (user_id ra) (user_id rb) \<and>
            user2_id c = max (user_id ra) (user_id rb) \<and>
            chat_view t2 s1 (User (user_id rb) nb) (user_id ra) =
              (s1, Render ra (sort_key timestamp
                    (filter (\<lambda>m. conversation_id m = conv_id c) (message_table s1)))) \<and>
            chat_view t3 s1 (User (user_id ra) na) (user_id rb) =
              (s1, Render rb (sort_key timestamp
                    (filter (\<lambda>m. conversation_id m = conv_id c) (message_table s1)))) \<and>
            chat_view_conversation t2 s1 (User (user_id rb) nb) (obj_of_row ra) = Inr (s1, c) \<and>
            chat_view_conversation t3 s1 (User (user_id ra) na) (obj_of_row rb) = Inr (s1, c) \<and>
            (\<exists>m' s2. save_message t4 s1 self_b y = (s2, Some m', []) \<and>
                      conversation_id m' = conv_id c \<and>
                      conversation_table s2 = conversation_table s1))"
proof -
  let ?lo = "min (user_id ra) (user_id rb)" and ?hi = "max (user_id ra) (user_id rb)"
  have ba: "user_id rb \<noteq> user_id ra" using ab by simp
  have after:
    "filter (\<lambda>x. user1_id x = ?lo \<and> user2_id x = ?hi) (conversation_table s1) = [c] \<and>
     chat_view ta s1 (User (user_id rb) nb) (user_id ra) =
       (s1, Render ra (sort_key timestamp
             (filter (\<lambda>m. conversation_id m = conv_id c) (message_table s1)))) \<and>
     chat_view tb s1 (User (user_id ra) na) (user_id rb) =
       (s1, Render rb (sort_key timestamp
             (filter (\<lambda>m. conversation_id m = conv_id c) (message_table s1)))) \<and>
     chat_view_conversation ta s1 (User (user_id rb) nb) (obj_of_row ra) = Inr (s1, c) \<and>
     chat_view_conversation tb s1 (User (user_id ra) na) (obj_of_row rb) = Inr (s1, c) \<and>
     (\<exists>m s2. save_message tc s1 self_a x = (s2, Some m, []) \<and>
              conversation_id m = conv_id c \<and>
              conversation_table s2 = conversation_table s1) \<and>
     (\<exists>m s2. save_message td s1 self_b y = (s2, Some m, []) \<and>
              conversation_id m = conv_id c \<and>
              conversation_table s2 = conversation_table s1)"
    if c: "c \<in> set (conversation_table s1)"
      and c1: "user1_id c = ?lo" and c2: "user2_id c = ?hi"
      and pairs1: "distinct (map (\<lambda>c. (user1_id c, user2_id c)) (conversation_table s1))"
      and users1: "user_table s1 = user_table s"
    for s1 c ta tb tc td
  proof -
    have u1: "distinct (map user_id (user_table s1))" using users users1 by simp
    have ra1: "ra \<in> set (user_table s1)" and rb1: "rb \<in> set (user_table s1)"
      using ra rb users1 by simp_all
    have c1': "user1_id c = min (user_id rb) (user_id ra)"
      and c2': "user2_id c = max (user_id rb) (user_id ra)"
      using c1 c2 by (simp_all add: min.commute max.commute)
    have one: "filter (\<lambda>x. user1_id x = ?lo \<and> user2_id x = ?hi) (conversation_table s1) = [c]"
      using pair_filter_single [OF pairs1 c] c1 c2 by simp
    have v1: "chat_view_conversation ta s1 (User (user_id rb) nb) (obj_of_row ra) = Inr (s1, c)"
      unfolding obj_of_row_def by (rule view_gets_row [OF pairs1 c ba c1' c2'])
    have v2: "chat_view_conversation tb s1 (User (user_id ra) na) (obj_of_row rb) = Inr (s1, c)"
      unfolding obj_of_row_def by (rule view_gets_row [OF pairs1 c ab c1 c2])
    note w1 = chat_view_found [OF u1 ra1 v1]
    note w2 = chat_view_found [OF u1 rb1 v2]
    from save_gets_row [OF u1 pairs1 ra1 rb1 ab c c1 c2 sa, of tc x]
    have m1: "\<exists>m s2. save_message tc s1 self_a x = (s2, Some m, []) \<and>
               conversation_id m = conv_id c \<and>
               conversation_table s2 = conversation_table s1"
      by blast
    from save_gets_row [OF u1 pairs1 rb1 ra1 ba c c1' c2' sb, of td y]
    have m2: "\<exists>m s2. save_message td s1 self_b y = (s2, Some m, []) \<and>
               conversation_id m = conv_id c \<and>
               conversation_table s2 = conversation_table s1"
      by blast
    show ?thesis
      by (rule conjI [OF one conjI [OF w1 conjI [OF w2 conjI [OF v1 conjI [OF v2 conjI [OF m1 m2]]]]]])
  qed
  from view_first [OF pairs ra rb ab, of t1 na] obtain s1 c where
    v: "chat_view_conversation t1 s (User (user_id ra) na) (obj_of_row rb) = Inr (s1, c)"
    and c: "c \<in> set (conversation_table s1)"
      "user1_id c = ?lo" "user2_id c = ?hi"
      "distinct (map (\<lambda>c. (user1_id c, user2_id c)) (conversation_table s1))"
      "user_table s1 = user_table s"
    by blast
  note w = chat_view_found [OF users rb v]
  note a1 = after [OF c, of t2 t2 t3 t4]
  have first: "\<exists>s1 c.
            chat_view t1 s (User (user_id ra) na) (user_id rb) =
              (s1, Render rb (sort_key timestamp
                    (filter (\<lambda>m. conversation_id m = conv_id c) (message_table s1)))) \<and>
            chat_view_conversation t1 s (User (user_id ra) na) (obj_of_row rb) = Inr (s1, c) \<and>
            filter (\<lambda>x. user1_id x = ?lo \<and> user2_id x = ?hi) (conversation_table s1) = [c] \<and>
            chat_view t2 s1 (User (user_id rb) nb) (user_id ra) =
              (s1, Render ra (sort_key timestamp
                    (filter (\<lambda>m. conversation_id m = conv_id c) (message_table s1)))) \<and>
            chat_view_conversation t2 s1 (User (user_id rb) nb) (obj_of_row ra) = Inr (s1, c) \<and>
            user1_id c = ?lo \<and> user2_id c = ?hi \<and>
            (\<exists>m s2. save_message t3 s1 self_a x = (s2, Some m, []) \<and>
                     conversation_id m = conv_id c \<and>
                     conversation_table s2 = conversation_table s1) \<and>
            (\<exists>m s2. save_message t4 s1 self_b y = (s2, Some m, []) \<and>
                     conversation_id m = conv_id c \<and>
                     conversation_table s2 = conversation_table s1)"
    apply (rule exI [of _ s1], rule exI [of _ c])
    using w v a1 c(2,3) apply (intro conjI)
            apply (elim conjE, assumption)+
    done
  from save_first [OF users pairs ra rb ab sa, of t1 x] obtain m s1' c' where
    sv: "save_message t1 s self_a x = (s1', Some m, [])"
    and c': "c' \<in> set (conversation_table s1')"
      "user1_id c' = ?lo" "user2_id c' = ?hi"
      "distinct (map (\<lambda>c. (user1_id c, user2_id c)) (conversation_table s1'))"
      "user_table s1' = user_table s"
    and mc: "conversation_id m = conv_id c'"
    by blast
  note a2 = after [OF c', of t2 t3 t4 t4]
  have second: "\<exists>s1 m c.
            save_message t1 s self_a x = (s1, Some m, []) \<and>
            filter (\<lambda>x. user1_id x = ?lo \<and> user2_id x = ?hi) (conversation_table s1) = [c] \<and>
            conversation_id m = conv_id c \<and>
            user1_id c = ?lo \<and> user2_id c = ?hi \<and>
            chat_view t2 s1 (User (user_id rb) nb) (user_id ra) =
              (s1, Render ra (sort_key timestamp
                    (filter (\<lambda>m. conversation_id m = conv_id c) (message_table s1)))) \<and>
            chat_view t3 s1 (User (user_id ra) na) (user_id rb) =
              (s1, Render rb (sort_key timestamp
                    (filter (\<lambda>m. conversation_id m = conv_id c) (message_table s1)))) \<and>
            chat_view_conversation t2 s1 (User (user_id rb) nb) (obj_of_row ra) = Inr (s1, c) \<and>
            chat_view_conversation t3 s1 (User (user_id ra) na) (obj_of_row rb) = Inr (s1, c) \<and>
            (\<exists>m' s2. save_message t4 s1 self_b y = (s2, Some m', []) \<and>
                      conversation_id m' = conv_id c \<and>
                      conversation_table s2 = conversation_table s1)"
    apply (rule exI [of _ s1'], rule exI [of _ m], rule exI [of _ c'])
    using sv mc a2 c'(2,3) apply (intro conjI)
             apply (elim conjE, assumption)+
    done
  from first second show ?thesis by (rule conjI)
qed

theorem conversation_same_both_ways_witness:
  "distinct (map user_id (user_table empty_store)) \<and>
   distinct (map (\<lambda>c. (user1_id c, user2_id c)) (conversation_table empty_store)) \<and>
   ann \<in> set (user_table empty_store) \<and> bob \<in> set (user_table empty_store) \<and>
   user_id ann \<noteq> user_id bob \<and>
   (\<exists>s1.
      chat_view 5 empty_store (User 1 ''ann'') 2 = (s1, Render bob []) \<and>
      conversation_table s1 = [\<lparr>conv_id = 1, user1_id = 1, user2_id = 2, created_at = 5\<rparr>] \<and>
      chat_view 6 s1 (User 2 ''bob'') 1 = (s1, Render ann []) \<and>
      (\<exists>m s2. save_message 7 s1 ann_chat ''hi'' = (s2, Some m, []) \<and> conversation_id m = 1) \<and>
      (\<exists>m s2. save_message 8 s1 bob_chat ''yo'' = (s2, Some m, []) \<and> conversation_id m = 1)) \<and>
   (\<exists>s1 m.
      save_message 5 empty_store ann_chat ''hi'' = (s1, Some m, []) \<and>
      conversation_table s1 = [\<lparr>conv_id = conversation_id m, user1_id = 1, user2_id = 2,
                                created_at = 5\<rparr>] \<and>
      chat_view 6 s1 (User 2 ''bob'') 1 = (s1, Render ann [m]))"
proof -
  let ?c = "\<lparr>conv_id = 1, user1_id = 1, user2_id = 2, created_at = 5\<rparr>"
  let ?s1 = "empty_store\<lparr>conversation_table := [?c], conversation_seq := 1\<rparr>"
  let ?m = "\<lparr>msg_id = 1, conversation_id = 1, sender_id = 1, content = ''hi'',
             timestamp = 5, is_read = False\<rparr>"
  let ?s2 = "empty_store\<lparr>conversation_table := [?c], conversation_seq := 1,
               message_table := [?m], message_seq := 1\<rparr>"
  have users: "distinct (map user_id (user_table empty_store))"
    by (simp add: empty_store_def ann_def bob_def cat_def)
  have pairs: "distinct (map (\<lambda>c. (user1_id c, user2_id c)) (conversation_table empty_store))"
    by (simp add: empty_store_def)
  have ra: "ann \<in> set (user_table empty_store)" and rb: "bob \<in> set (user_table empty_store)"
    by (simp_all add: empty_store_def)
  have ab: "user_id ann \<noteq> user_id bob"
    by (simp add: ann_def bob_def)
  have sa: "user ann_chat = User (user_id ann) ''ann''" "other_user_id ann_chat = user_id bob"
    and sb: "user bob_chat = User (user_id bob) ''bob''" "other_user_id bob_chat = user_id ann"
    by (simp_all add: ann_chat_def bob_chat_def ann_def bob_def)
  have ids: "user_id ann = 1" "user_id bob = 2"
    by (simp_all add: ann_def bob_def)
  have vc: "chat_view_conversation 5 empty_store (User 1 ''ann'') (obj_of_row bob) = Inr (?s1, ?c)"
    by (simp add: chat_view_conversation_def min_by_id_def max_by_id_def obj_of_row_def
        get_or_create_def Let_def empty_store_def ann_def bob_def cat_def)
  have w: "save_message 5 empty_store ann_chat ''hi'' = (?s2, Some ?m, [])"
    by (simp add: save_message_def objects_get_user_def sorted_by_id_def obj_of_row_def
        get_or_create_def objects_create_message_def Let_def empty_store_def ann_def bob_def
        cat_def ann_chat_def)
  have v2: "chat_view 6 ?s2 (User 2 ''bob'') 1 = (?s2, Render ann [?m])"
    by (simp add: chat_view_def chat_view_conversation_def min_by_id_def max_by_id_def
        obj_of_row_def get_or_create_def objects_get_user_def Let_def empty_store_def
        ann_def bob_def cat_def)
  have none: "message_table ?s1 = []" and tab: "conversation_table ?s1 = [?c]"
    and tab2: "conversation_table ?s2 =
      [\<lparr>conv_id = conversation_id ?m, user1_id = 1, user2_id = 2, created_at = 5\<rparr>]"
    by (simp_all add: empty_store_def)
  from conversation_same_both_ways [OF users pairs ra rb ab sa sb,
      where ?t1.0 = 5 and ?t2.0 = 6 and ?t3.0 = 7 and ?t4.0 = 8 and x = "''hi''" and y = "''yo''"]
  obtain s1 c where
    1: "chat_view 5 empty_store (User 1 ''ann'') 2 =
          (s1, Render bob (sort_key timestamp
                 (filter (\<lambda>m. conversation_id m = conv_id c) (message_table s1))))"
      "chat_view_conversation 5 empty_store (User 1 ''ann'') (obj_of_row bob) = Inr (s1, c)"
      "chat_view 6 s1 (User 2 ''bob'') 1 =
          (s1, Render ann (sort_key timestamp
                 (filter (\<lambda>m. conversation_id m = conv_id c) (message_table s1))))"
      "\<exists>m s2. save_message 7 s1 ann_chat ''hi'' = (s2, Some m, []) \<and> conversation_id m = conv_id c"
      "\<exists>m s2. save_message 8 s1 bob_chat ''yo'' = (s2, Some m, []) \<and> conversation_id m = conv_id c"
    unfolding ids by blast
  from 1(2) vc have "Inr (s1, c) = (Inr (?s1, ?c) :: py_error + store \<times> conversation_row)"
    by (rule trans [OF sym])
  then have eq: "s1 = ?s1" "c = ?c"
    by (rule_tac [!] sum.inject [THEN iffD1, THEN prod.inject [THEN iffD1], THEN conjunct1]
        sum.inject [THEN iffD1, THEN prod.inject [THEN iffD1], THEN conjunct2])
  have first: "\<exists>s1.
      chat_view 5 empty_store (User 1 ''ann'') 2 = (s1, Render bob []) \<and>
      conversation_table s1 = [?c] \<and>
      chat_view 6 s1 (User 2 ''bob'') 1 = (s1, Render ann []) \<and>
      (\<exists>m s2. save_message 7 s1 ann_chat ''hi'' = (s2, Some m, []) \<and> conversation_id m = 1) \<and>
      (\<exists>m s2. save_message 8 s1 bob_chat ''yo'' = (s2, Some m, []) \<and> conversation_id m = 1)"
    using 1(1,3,4,5) none tab unfolding eq by (intro exI [of _ ?s1]) simp
  have second: "\<exists>s1 m.
      save_message 5 empty_store ann_chat ''hi'' = (s1, Some m, []) \<and>
      conversation_table s1 = [\<lparr>conv_id = conversation_id m, user1_id = 1, user2_id = 2,
                                created_at = 5\<rparr>] \<and>
      chat_view 6 s1 (User 2 ''bob'') 1 = (s1, Render ann [m])"
    by (intro exI [of _ ?s2] exI [of _ ?m] conjI) (rule w, rule tab2, rule v2)
  from users pairs ra rb ab first second show ?thesis by (intro conjI)
qed

section \<open>Operations keep the pairs in order\<close>

lemma get_or_create_ordered:
  assumes "get_or_create now s u1 u2 = Inr (s', c)"
    and "obj_id u1 = Some a" and "obj_id u2 = Some b" and "a \<le> b"
    and "list_all (\<lambda>x. user1_id x \<le> user2_id x) (conversation_table s)"
  shows "list_all (\<lambda>x. user1_id x \<le> user2_id x) (conversation_table s')"
  using assms
  by (auto simp: get_or_create_def Let_def split: list.splits if_splits)

lemma sorted_by_id_ordered:
  "sorted_by_id x y = Inr (u1, u2) \<Longrightarrow> \<exists>a b. obj_id u1 = Some a \<and> obj_id u2 = Some b \<and> a \<le> b"
  by (auto simp: sorted_by_id_def split: option.splits if_splits)

lemma min_max_by_id_ordered:
  "min_by_id x y = Inr u1 \<Longrightarrow> max_by_id x y = Inr u2 \<Longrightarrow>
     \<exists>a b. obj_id u1 = Some a \<and> obj_id u2 = Some b \<and> a \<le> b"
  by (auto simp: min_by_id_def max_by_id_def split: option.splits if_splits)

lemma objects_create_message_convs:
  "objects_create_message now s c u text = Inr (s2, m) \<Longrightarrow>
     conversation_table s2 = conversation_table s"
  by (auto simp: objects_create_message_def Let_def split: option.splits if_splits)

lemma save_message_ordered:
  assumes ord: "list_all (\<lambda>x. user1_id x \<le> user2_id x) (conversation_table s)"
  shows "list_all (\<lambda>x. user1_id x \<le> user2_id x)
           (conversation_table (fst (save_message now s self text)))"
proof (cases "objects_get_user s (Some (other_user_id self))")
  case (Inl e)
  then show ?thesis using ord by (simp add: save_message_def)
next
  case (Inr other_user)
  show ?thesis
  proof (cases "sorted_by_id (user self) (obj_of_row other_user)")
    case (Inl e)
    then show ?thesis using ord Inr by (simp add: save_message_def)
  next
    case sorted: (Inr p)
    obtain u1 u2 where p: "p = (u1, u2)" by (cases p)
    from sorted_by_id_ordered [OF sorted [unfolded p]]
    obtain a b where ab: "obj_id u1 = Some a" "obj_id u2 = Some b" "a \<le> b" by blast
    show ?thesis
    proof (cases "get_or_create now s u1 u2")
      case (Inl e)
      then show ?thesis using ord Inr sorted p by (simp add: save_message_def)
    next
      case goc: (Inr q)
      obtain s1 c where q: "q = (s1, c)" by (cases q)
      have ord1: "list_all (\<lambda>x. user1_id x \<le> user2_id x) (conversation_table s1)"
        using get_or_create_ordered [OF goc [unfolded q] ab ord] .
      show ?thesis
      proof (cases "objects_create_message now s1 c (user self) text")
        case (Inl e)
        then show ?thesis using ord1 Inr sorted p goc q by (simp add: save_message_def)
      next
        case cm: (Inr w)
        obtain s2 m where w: "w = (s2, m)" by (cases w)
        from objects_create_message_convs [OF cm [unfolded w]] ord1
        show ?thesis using Inr sorted p goc q cm w by (simp add: save_message_def)
      qed
    qed
  qed
qed

lemma chat_view_ordered:
  assumes ord: "list_all (\<lambda>x. user1_id x \<le> user2_id x) (conversation_table s)"
  shows "list_all (\<lambda>x. user1_id x \<le> user2_id x)
           (conversation_table (fst (chat_view now s request_user uid)))"
proof (cases "is_anonymous request_user")
  case True
  then show ?thesis using ord by (simp add: chat_view_def)
next
  case auth: False
  show ?thesis
  proof (cases "objects_get_user s (Some uid)")
    case (Inl e)
    then show ?thesis using ord auth by (cases e) (simp_all add: chat_view_def)
  next
    case (Inr other_user)
    show ?thesis
    proof (cases "chat_view_conversation now s request_user (obj_of_row other_user)")
      case (Inl e)
      then show ?thesis using ord auth Inr by (simp add: chat_view_def)
    next
      case cv: (Inr q)
      obtain s1 c where q: "q = (s1, c)" by (cases q)
      from cv [unfolded q] obtain u1 u2 where
        mn: "min_by_id request_user (obj_of_row other_user) = Inr u1"
        and mx: "max_by_id request_user (obj_of_row other_user) = Inr u2"
        and goc: "get_or_create now s u1 u2 = Inr (s1, c)"
        by (auto simp: chat_view_conversation_def split: sum.splits)
      from min_max_by_id_ordered [OF mn mx]
      obtain a b where ab: "obj_id u1 = Some a" "obj_id u2 = Some b" "a \<le> b" by blast
      have "list_all (\<lambda>x. user1_id x \<le> user2_id x) (conversation_table s1)"
        using get_or_create_ordered [OF goc ab ord] .
      then show ?thesis using auth Inr cv q by (simp add: chat_view_def)
    qed
  qed
qed

lemma update_user_status_convs:
  "update_user_status s u st = (s', out) \<Longrightarrow> conversation_table s' = conversation_table s"
  by (auto simp: update_user_status_def split: sum.splits)

lemma mark_messages_read_convs:
  "conversation_table (fst (mark_messages_read s ids reader)) = conversation_table s"
  by (simp add: mark_messages_read_def split: sum.splits)

lemma delete_message_convs:
  "conversation_table (fst (delete_message s mid uid)) = conversation_table s"
  by (simp add: delete_message_def split: sum.splits)

lemma receive_ordered:
  assumes ord: "list_all (\<lambda>x. user1_id x \<le> user2_id x) (conversation_table s)"
  shows "list_all (\<lambda>x. user1_id x \<le> user2_id x)
           (conversation_table (fst (receive now s self td)))"
proof (cases td)
  case Not_json
  then show ?thesis using ord by simp
next
  case (Json j)
  show ?thesis
  proof (cases j)
    case (JObj data)
    have msg: "list_all (\<lambda>x. user1_id x \<le> user2_id x)
        (conversation_table (fst (case save_message now s self body of
            (s', None, printed) \<Rightarrow> (s', printed, None)
          | (s', Some message, printed) \<Rightarrow>
              (case room_send self (ev message) of (sent, err) \<Rightarrow> (s', printed @ sent, err)))))"
      for body ev
      using save_message_ordered [OF ord, of now self body]
      by (auto split: prod.splits option.splits)
    have mark: "list_all (\<lambda>x. user1_id x \<le> user2_id x)
        (conversation_table (fst (case mark_messages_read s ids reader of
            (s', printed) \<Rightarrow>
              (case room_send self ev of (sent, err) \<Rightarrow> (s', printed @ sent, err)))))"
      for ids reader ev
      using mark_messages_read_convs [of s ids reader] ord
      by (auto split: prod.splits)
    have del: "list_all (\<lambda>x. user1_id x \<le> user2_id x)
        (conversation_table (fst (case delete_message s mid uid of
            (s', ret, printed) \<Rightarrow>
              (case room_send self ev of (sent, err) \<Rightarrow> (s', printed @ sent, err)))))"
      for mid uid ev
      using delete_message_convs [of s mid uid] ord
      by (auto split: prod.splits)
    show ?thesis
      unfolding Json JObj receive.simps Let_def
      using ord msg mark del
      by (simp split: json.splits prod.splits)
  qed (use ord Json in simp_all)
qed

section \<open>Which conversation row an operation creates\<close>

lemma is_anonymous_iff: "is_anonymous u = (obj_id u = None)"
  by (cases u) simp_all

lemma objects_get_user_id:
  assumes "objects_get_user s (Some uid) = Inr r"
  shows "user_id r = uid"
proof -
  from assms have "filter (\<lambda>u. Some (user_id u) = Some uid) (user_table s) = [r]"
    by (auto simp: objects_get_user_def split: list.splits)
  then have "r \<in> set (filter (\<lambda>u. Some (user_id u) = Some uid) (user_table s))"
    by simp
  then show ?thesis by simp
qed

lemma get_or_create_table:
  assumes "get_or_create now s u1 u2 = Inr (s', c)"
    and "obj_id u1 = Some a" and "obj_id u2 = Some b"
  shows "conversation_table s' = conversation_table s \<or>
         conversation_table s' = conversation_table s @
           [\<lparr>conv_id = conversation_seq s + 1, user1_id = a, user2_id = b, created_at = now\<rparr>]"
  using assms
  by (auto simp: get_or_create_def Let_def split: list.splits if_splits)

lemma sorted_by_id_min_max:
  assumes "sorted_by_id x y = Inr (u1, u2)" and "obj_id x = Some a" and "obj_id y = Some b"
  shows "obj_id u1 = Some (min a b) \<and> obj_id u2 = Some (max a b)"
  using assms by (auto simp: sorted_by_id_def min_def max_def split: if_splits)

lemma min_max_by_id_min_max:
  assumes "min_by_id x y = Inr u1" and "max_by_id x y = Inr u2"
    and "obj_id x = Some a" and "obj_id y = Some b"
  shows "obj_id u1 = Some (min a b) \<and> obj_id u2 = Some (max a b)"
  using assms by (auto simp: min_by_id_def max_by_id_def min_def max_def split: if_splits)

lemma save_message_table:
  assumes me: "obj_id (user self) = Some a"
  shows "conversation_table (fst (save_message now s self body)) = conversation_table s \<or>
         conversation_table (fst (save_message now s self body)) = conversation_table s @
           [\<lparr>conv_id = conversation_seq s + 1, user1_id = min a (other_user_id self),
             user2_id = max a (other_user_id self), created_at = now\<rparr>]"
proof (cases "objects_get_user s (Some (other_user_id self))")
  case (Inl e)
  then show ?thesis by (simp add: save_message_def)
next
  case (Inr other_user)
  have peer: "obj_id (obj_of_row other_user) = Some (other_user_id self)"
    using objects_get_user_id [OF Inr] by (simp add: obj_of_row_def)
  show ?thesis
  proof (cases "sorted_by_id (user self) (obj_of_row other_user)")
    case (Inl e)
    then show ?thesis using Inr by (simp add: save_message_def)
  next
    case sorted: (Inr p)
    obtain u1 u2 where p: "p = (u1, u2)" by (cases p)
    from sorted_by_id_min_max [OF sorted [unfolded p] me peer]
    have ids: "obj_id u1 = Some (min a (other_user_id self))"
      "obj_id u2 = Some (max a (other_user_id self))"
      by simp_all
    show ?thesis
    proof (cases "get_or_create now s u1 u2")
      case (Inl e)
      then show ?thesis using Inr sorted p by (simp add: save_message_def)
    next
      case goc: (Inr q)
      obtain s1 c where q: "q = (s1, c)" by (cases q)
      note tab = get_or_create_table [OF goc [unfolded q] ids]
      show ?thesis
      proof (cases "objects_create_message now s1 c (user self) body")
        case (Inl e)
        then show ?thesis using tab Inr sorted p goc q by (simp add: save_message_def)
      next
        case cm: (Inr w)
        obtain s2 m where w: "w = (s2, m)" by (cases w)
        from objects_create_message_convs [OF cm [unfolded w]] tab
        show ?thesis using Inr sorted p goc q cm w by (simp add: save_message_def)
      qed
    qed
  qed
qed

lemma save_message_anonymous:
  assumes "obj_id (user self) = None"
  shows "conversation_table (fst (save_message now s self body)) = conversation_table s"
  using assms by (simp add: save_message_def sorted_by_id_def split: sum.splits)

lemma chat_view_table:
  assumes me: "obj_id request_user = Some a"
  shows "conversation_table (fst (chat_view now s request_user b)) = conversation_table s \<or>
         conversation_table (fst (chat_view now s request_user b)) = conversation_table s @
           [\<lparr>conv_id = conversation_seq s + 1, user1_id = min a b, user2_id = max a b,
             created_at = now\<rparr>]"
proof (cases "objects_get_user s (Some b)")
  case (Inl e)
  then show ?thesis by (cases e) (simp_all add: chat_view_def)
next
  case (Inr other_user)
  have peer: "obj_id (obj_of_row other_user) = Some b"
    using objects_get_user_id [OF Inr] by (simp add: obj_of_row_def)
  have auth: "\<not> is_anonymous request_user"
    using me by (simp add: is_anonymous_iff)
  show ?thesis
  proof (cases "chat_view_conversation now s request_user (obj_of_row other_user)")
    case (Inl e)
    then show ?thesis using Inr by (simp add: chat_view_def)
  next
    case cv: (Inr q)
    obtain s1 c where q: "q = (s1, c)" by (cases q)
    from cv [unfolded q] obtain u1 u2 where
      mn: "min_by_id request_user (obj_of_row other_user) = Inr u1"
      and mx: "max_by_id request_user (obj_of_row other_user) = Inr u2"
      and goc: "get_or_create now s u1 u2 = Inr (s1, c)"
      by (auto simp: chat_view_conversation_def split: sum.splits)
    from min_max_by_id_min_max [OF mn mx me peer]
    have ids: "obj_id u1 = Some (min a b)" "obj_id u2 = Some (max a b)"
      by simp_all
    from get_or_create_table [OF goc ids]
    show ?thesis using auth Inr cv q by (simp add: chat_view_def)
  qed
qed

lemma chat_view_anonymous:
  assumes "obj_id request_user = None"
  shows "fst (chat_view now s request_user b) = s"
  using assms by (simp add: chat_view_def is_anonymous_iff)

lemma receive_conversations:
  assumes same: "P (conversation_table s)"
    and saved: "\<And>body. P (conversation_table (fst (save_message now s self body)))"
  shows "P (conversation_table (fst (receive now s self td)))"
proof (cases td)
  case Not_json
  then show ?thesis using same by simp
next
  case (Json j)
  show ?thesis
  proof (cases j)
    case (JObj data)
    have msg: "P (conversation_table (fst (case save_message now s self body of
            (s', None, printed) \<Rightarrow> (s', printed, None)
          | (s', Some message, printed) \<Rightarrow>
              (case room_send self (ev message) of (sent, err) \<Rightarrow> (s', printed @ sent, err)))))"
      for body ev
      using saved [of body]
      by (auto split: prod.splits option.splits)
    have mark: "P (conversation_table (fst (case mark_messages_read s ids reader of
            (s', printed) \<Rightarrow>
              (case room_send self ev of (sent, err) \<Rightarrow> (s', printed @ sent, err)))))"
      for ids reader ev
      using mark_messages_read_convs [of s ids reader] same
      by (auto split: prod.splits)
    have del: "P (conversation_table (fst (case delete_message s mid uid of
            (s', ret, printed) \<Rightarrow>
              (case room_send self ev of (sent, err) \<Rightarrow> (s', printed @ sent, err)))))"
      for mid uid ev
      using delete_message_convs [of s mid uid] same
      by (auto split: prod.splits)
    show ?thesis
      unfolding Json JObj receive.simps Let_def
      using same msg mark del
      by (simp split: json.splits prod.splits)
  qed (use same Json in simp_all)
qed

lemma receive_table:
  assumes me: "obj_id (user self) = Some a"
  shows "conversation_table (fst (receive now s self td)) = conversation_table s \<or>
         conversation_table (fst (receive now s self td)) = conversation_table s @
           [\<lparr>conv_id = conversation_seq s + 1, user1_id = min a (other_user_id self),
             user2_id = max a (other_user_id self), created_at = now\<rparr>]"
  by (rule receive_conversations
      [where P = "\<lambda>tbl. tbl = conversation_table s \<or>
         tbl = conversation_table s @
           [\<lparr>conv_id = conversation_seq s + 1, user1_id = min a (other_user_id self),
             user2_id = max a (other_user_id self), created_at = now\<rparr>]"])
    (simp, rule save_message_table [OF me])

lemma receive_anonymous:
  assumes "obj_id (user self) = None"
  shows "conversation_table (fst (receive now s self td)) = conversation_table s"
  by (rule receive_conversations [where P = "\<lambda>tbl. tbl = conversation_table s"])
    (simp, rule save_message_anonymous [OF assms])

lemma update_user_status_table:
  "conversation_table (fst (update_user_status s u st)) = conversation_table s"
  by (simp add: update_user_status_def split: sum.splits)

lemma connects_keep_conversations:
  "conversation_table (fst (chat_connect s scope_user r chan)) = conversation_table s"
  "conversation_table (fst (chat_disconnect s self)) = conversation_table s"
  "conversation_table (fst (presence_connect s scope_user chan)) = conversation_table s"
  "conversation_table (fst (presence_disconnect s pself)) = conversation_table s"
  by (auto simp: chat_connect_def chat_disconnect_def presence_connect_def
      presence_disconnect_def Let_def update_user_status_table
      split: option.splits prod.splits dest!: update_user_status_convs)

lemma reachable_ordered:
  "reachable s \<Longrightarrow> list_all (\<lambda>c. user1_id c \<le> user2_id c) (conversation_table s)"
proof (induction rule: reachable.induct)
  case (start s)
  then show ?case by simp
next
  case (viewed s now request_user uid)
  then show ?case by (simp add: chat_view_ordered)
next
  case (received s now self td)
  then show ?case by (simp add: receive_ordered)
next
  case (chat_connected s scope_user r chan)
  then show ?case by (simp add: connects_keep_conversations)
next
  case (chat_disconnected s self)
  then show ?case by (simp add: connects_keep_conversations)
next
  case (presence_connected s scope_user chan)
  then show ?case by (simp add: connects_keep_conversations)
next
  case (presence_disconnected s pself)
  then show ?case by (simp add: connects_keep_conversations)
qed

section \<open>The order of the two users of a conversation\<close>

text \<open>
  C8, as stated: every conversation row the program creates has \<^verbatim>\<open>user1.id\<close> strictly
  below \<^verbatim>\<open>user2.id\<close>. A user who opens the chat page of their own id, or sends a message
  on the socket of their own id, creates a row with the same id twice.
\<close>

theorem self_conversation_row:
  "conversation_table (fst (chat_view 5 empty_store (User 1 ''ann'') 1)) =
     [\<lparr>conv_id = 1, user1_id = 1, user2_id = 1, created_at = 5\<rparr>] \<and>
   conversation_table (fst (receive 5 empty_store self_chat (Json (JObj [(''message'', JStr ''x'')])))) =
     [\<lparr>conv_id = 1, user1_id = 1, user2_id = 1, created_at = 5\<rparr>]"
proof -
  have sp: "strip ''x'' = ''x''"
    by (simp add: strip_def is_space_def)
  show ?thesis
    by (simp add: chat_view_def chat_view_conversation_def min_by_id_def max_by_id_def
        obj_of_row_def get_or_create_def objects_get_user_def save_message_def sorted_by_id_def
        objects_create_message_def room_send_def dict_get_def sp Let_def empty_store_def
        ann_def bob_def cat_def self_chat_def)
qed

text \<open>
  C8, amended. The chat view opened by the user with id a for the id b, and a message
  saved or a frame received in the session of the user with id a whose peer id is b,
  leave the conversation table as it is or append one row, and that row has the smaller
  of a and b as \<^verbatim>\<open>user1\<close> and the larger as \<^verbatim>\<open>user2\<close>. Its \<^verbatim>\<open>user1.id\<close> is below its
  \<^verbatim>\<open>user2.id\<close> exactly when a and b differ, and the two are equal exactly when b is a,
  the user's own id. An anonymous user creates no row, and connects and disconnects
  create none. So in every store the program reaches from one without conversations, by
  any sequence of these operations with any arguments, every conversation row has
  \<^verbatim>\<open>user1.id\<close> at most \<^verbatim>\<open>user2.id\<close>.
\<close>

theorem conversation_pairs_ordered:
  fixes s now a b
  defines "row \<equiv> \<lparr>conv_id = conversation_seq s + 1, user1_id = min a b, user2_id = max a b,
                    created_at = now\<rparr>"
  shows
    "(reachable s \<longrightarrow> list_all (\<lambda>c. user1_id c \<le> user2_id c) (conversation_table s)) \<and>
     (obj_id request_user = Some a \<longrightarrow>
        conversation_table (fst (chat_view now s request_user b)) = conversation_table s \<or>
        conversation_table (fst (chat_view now s request_user b)) = conversation_table s @ [row]) \<and>
     (obj_id (user self) = Some a \<and> other_user_id self = b \<longrightarrow>
        (conversation_table (fst (save_message now s self body)) = conversation_table s \<or>
         conversation_table (fst (save_message now s self body)) = conversation_table s @ [row]) \<and>
        (conversation_table (fst (receive now s self td)) = conversation_table s \<or>
         conversation_table (fst (receive now s self td)) = conversation_table s @ [row])) \<and>
     (obj_id request_user = None \<longrightarrow>
        conversation_table (fst (chat_view now s request_user b)) = conversation_table s) \<and>
     (obj_id (user self) = None \<longrightarrow>
        conversation_table (fst (save_message now s self body)) = conversation_table s \<and>
        conversation_table (fst (receive now s self td)) = conversation_table s) \<and>
     conversation_table (fst (chat_connect s scope_user r chan)) = conversation_table s \<and>
     conversation_table (fst (chat_disconnect s self)) = conversation_table s \<and>
     conversation_table (fst (presence_connect s scope_user chan)) = conversation_table s \<and>
     conversation_table (fst (presence_disconnect s pself)) = conversation_table s \<and>
     (user1_id row < user2_id row) = (a \<noteq> b) \<and>
     (user1_id row = user2_id row) = (a = b)"
proof -
  have A: "reachable s \<longrightarrow> list_all (\<lambda>c. user1_id c \<le> user2_id c) (conversation_table s)"
    by (rule impI, rule reachable_ordered)
  have B: "obj_id request_user = Some a \<longrightarrow>
        conversation_table (fst (chat_view now s request_user b)) = conversation_table s \<or>
        conversation_table (fst (chat_view now s request_user b)) = conversation_table s @ [row]"
    unfolding row_def by (rule impI, rule chat_view_table)
  have C: "obj_id (user self) = Some a \<and> other_user_id self = b \<longrightarrow>
        (conversation_table (fst (save_message now s self body)) = conversation_table s \<or>
         conversation_table (fst (save_message now s self body)) = conversation_table s @ [row]) \<and>
        (conversation_table (fst (receive now s self td)) = conversation_table s \<or>
         conversation_table (fst (receive now s self td)) = conversation_table s @ [row])"
  proof (intro impI, elim conjE)
    assume me: "obj_id (user self) = Some a" and peer: "other_user_id self = b"
    from save_message_table [OF me, of now s body] receive_table [OF me, of now s td]
    show "(conversation_table (fst (save_message now s self body)) = conversation_table s \<or>
         conversation_table (fst (save_message now s self body)) = conversation_table s @ [row]) \<and>
        (conversation_table (fst (receive now s self td)) = conversation_table s \<or>
         conversation_table (fst (receive now s self td)) = conversation_table s @ [row])"
      unfolding row_def peer by (rule conjI)
  qed
  have D: "obj_id request_user = None \<longrightarrow>
        conversation_table (fst (chat_view now s request_user b)) = conversation_table s"
    by (simp add: chat_view_anonymous)
  have E: "obj_id (user self) = None \<longrightarrow>
        conversation_table (fst (save_message now s self body)) = conversation_table s \<and>
        conversation_table (fst (receive now s self td)) = conversation_table s"
    by (simp add: save_message_anonymous receive_anonymous)
  note F = connects_keep_conversations [of s]
  have G: "(user1_id row < user2_id row) = (a \<noteq> b)"
    and H: "(user1_id row = user2_id row) = (a = b)"
    by (auto simp: row_def min_def max_def)
  show ?thesis
    by (rule conjI [OF A conjI [OF B conjI [OF C conjI [OF D conjI [OF E
        conjI [OF F(1) conjI [OF F(2) conjI [OF F(3) conjI [OF F(4) conjI [OF G H]]]]]]]]]])
qed

theorem conversation_pairs_ordered_witness:
  "reachable (fst (chat_view 5 empty_store (User 2 ''bob'') 1)) \<and>
   list_all (\<lambda>c. user1_id c \<le> user2_id c)
     (conversation_table (fst (chat_view 5 empty_store (User 2 ''bob'') 1))) \<and>
   obj_id (User 2 ''bob'') = Some 2 \<and>
   conversation_table (fst (chat_view 5 empty_store (User 2 ''bob'') 1)) =
     [\<lparr>conv_id = 1, user1_id = 1, user2_id = 2, created_at = 5\<rparr>] \<and>
   obj_id (user bob_chat) = Some 2 \<and> other_user_id bob_chat = 1 \<and>
   conversation_table (fst (receive 5 empty_store bob_chat (Json (JObj [(''message'', JStr ''x'')])))) =
     [\<lparr>conv_id = 1, user1_id = 1, user2_id = 2, created_at = 5\<rparr>] \<and>
   obj_id (user rejected_chat) = None \<and>
   conversation_table (fst (receive 5 empty_store rejected_chat
      (Json (JObj [(''message'', JStr ''x'')])))) = []"
proof -
  have r0: "reachable empty_store"
    by (rule reachable.start) (simp add: empty_store_def)
  have r1: "reachable (fst (chat_view 5 empty_store (User 2 ''bob'') 1))"
    using r0 by (rule reachable.viewed)
  have sp: "strip ''x'' = ''x''"
    by (simp add: strip_def is_space_def)
  have tab: "conversation_table (fst (chat_view 5 empty_store (User 2 ''bob'') 1)) =
     [\<lparr>conv_id = 1, user1_id = 1, user2_id = 2, created_at = 5\<rparr>]"
    by (simp add: chat_view_def chat_view_conversation_def min_by_id_def max_by_id_def
        obj_of_row_def get_or_create_def objects_get_user_def Let_def empty_store_def
        ann_def bob_def cat_def)
  have tab2: "conversation_table (fst (receive 5 empty_store bob_chat
       (Json (JObj [(''message'', JStr ''x'')])))) =
     [\<lparr>conv_id = 1, user1_id = 1, user2_id = 2, created_at = 5\<rparr>]"
    by (simp add: save_message_def sorted_by_id_def obj_of_row_def get_or_create_def
        objects_get_user_def objects_create_message_def room_send_def dict_get_def sp Let_def
        empty_store_def ann_def bob_def cat_def bob_chat_def)
  have who: "obj_id (user bob_chat) = Some 2" "other_user_id bob_chat = 1"
    "obj_id (user rejected_chat) = None"
    by (simp_all add: bob_chat_def rejected_chat_def)
  have none: "conversation_table empty_store = []"
    by (simp add: empty_store_def)
  note th1 = conversation_pairs_ordered
    [where s = "fst (chat_view 5 empty_store (User 2 ''bob'') 1)"]
  note th2 = conversation_pairs_ordered
    [where s = empty_store and self = rejected_chat and now = 5
      and td = "Json (JObj [(''message'', JStr ''x'')])"]
  have ord: "list_all (\<lambda>c. user1_id c \<le> user2_id c)
     (conversation_table (fst (chat_view 5 empty_store (User 2 ''bob'') 1)))"
    by (rule th1 [THEN conjunct1, THEN mp, OF r1])
  have anon: "conversation_table (fst (receive 5 empty_store rejected_chat
      (Json (JObj [(''message'', JStr ''x'')])))) = []"
    using th2 [THEN conjunct2, THEN conjunct2, THEN conjunct2, THEN conjunct2, THEN conjunct1,
        THEN mp, OF who(3), THEN conjunct2]
    by (simp add: none)
  show ?thesis
    using r1 ord tab who tab2 anon by simp
qed

end
